theory Spec2Isabelle
  imports Main
begin

section \<open>Values exchanged with the mesh and the inference backend\<close>

text \<open>
  Every value that \<^verbatim>\<open>comfyui_integration.py\<close> handles is either decoded from JSON
  (message envelopes, options, backend replies) or a literal built from such values
  (workflows, payloads).  Python's \<^verbatim>\<open>None\<close>, \<^verbatim>\<open>bool\<close>, \<^verbatim>\<open>int\<close>, \<^verbatim>\<open>str\<close>,
  \<^verbatim>\<open>list\<close> and \<^verbatim>\<open>dict\<close> are the constructors below; a \<^verbatim>\<open>dict\<close> is an association
  list in insertion order, looked up from the front.  JSON numbers with a fraction are
  left out.
\<close>

datatype json =
    JNull
  | JBool bool
  | JInt int
  | JStr string
  | JArr "json list"
  | JObj "(string \<times> json) list"

text \<open>An exception is represented by the text that \<^verbatim>\<open>str(e)\<close> yields.\<close>

type_synonym exn = string

definition apos :: char where
  "apos = CHR 0x27"

fun type_name :: "json \<Rightarrow> string" where
  "type_name JNull = ''NoneType''"
| "type_name (JBool b) = ''bool''"
| "type_name (JInt i) = ''int''"
| "type_name (JStr s) = ''str''"
| "type_name (JArr xs) = ''list''"
| "type_name (JObj kvs) = ''dict''"

definition attribute_error :: "json \<Rightarrow> string \<Rightarrow> exn" where
  "attribute_error v a =
     [apos] @ type_name v @ [apos] @ '' object has no attribute '' @ [apos] @ a @ [apos]"

text \<open>\<^verbatim>\<open>v.get(k, d)\<close>: defined on a \<^verbatim>\<open>dict\<close> only, AttributeError on anything else.\<close>

fun py_get :: "json \<Rightarrow> string \<Rightarrow> json \<Rightarrow> exn + json" where
  "py_get (JObj kvs) k d = Inr (case map_of kvs k of Some v \<Rightarrow> v | None \<Rightarrow> d)"
| "py_get v k d = Inl (attribute_error v ''get'')"

text \<open>Truthiness, as tested by \<^verbatim>\<open>if not self.mesh_agent_id\<close> and \<^verbatim>\<open>if response\<close>.\<close>

fun truthy :: "json \<Rightarrow> bool" where
  "truthy JNull = False"
| "truthy (JBool b) = b"
| "truthy (JInt i) = (i \<noteq> 0)"
| "truthy (JStr s) = (s \<noteq> [])"
| "truthy (JArr xs) = (xs \<noteq> [])"
| "truthy (JObj kvs) = (kvs \<noteq> [])"

text \<open>\<^verbatim>\<open>for msg in messages\<close>: the elements of a list, the characters of a string, the keys
  of a dict; TypeError on the other values.\<close>

fun py_iter :: "json \<Rightarrow> exn + json list" where
  "py_iter (JArr xs) = Inr xs"
| "py_iter (JStr s) = Inr (map (\<lambda>c. JStr [c]) s)"
| "py_iter (JObj kvs) = Inr (map (\<lambda>kv. JStr (fst kv)) kvs)"
| "py_iter v = Inl ([apos] @ type_name v @ [apos] @ '' object is not iterable'')"

text \<open>Decimal text of an integer, as an f-string prints a status code.\<close>

definition digit_char :: "nat \<Rightarrow> char" where
  "digit_char n = ''0123456789'' ! (n mod 10)"

fun nat_str :: "nat \<Rightarrow> string" where
  "nat_str n = (if n < 10 then [digit_char n] else nat_str (n div 10) @ [digit_char n])"

declare nat_str.simps [simp del]

definition int_str :: "int \<Rightarrow> string" where
  "int_str i = (if i < 0 then CHR ''-'' # nat_str (nat (- i)) else nat_str (nat i))"

section \<open>The outside world\<close>

text \<open>
  The calls of the \<^verbatim>\<open>requests\<close> library, with URL, headers, JSON body and timeout.
\<close>

datatype call =
    Post string "(string \<times> string) list" json nat
  | Get string "(string \<times> string) list" nat

text \<open>
  What a call gives back: the library raises (connection failure, timeout), or there is
  a response with a status code and the outcome of \<^verbatim>\<open>resp.json()\<close>, which raises
  on a body that is not JSON.
\<close>

datatype reply =
    Raises exn
  | Response int "exn + json"

text \<open>Everything the agent does to the outside, in order.\<close>

datatype event =
    Call call
  | Print string
  | Sleep nat

text \<open>
  The parts of a run that the module does not contain are parameters: the \<^verbatim>\<open>json\<close>
  library on strings (\<^verbatim>\<open>loads\<close> returns the decoded value or raises), the text Python
  prints for a list or a dict, the peers reached over HTTP (their reply may depend on all
  that happened before), and the moment another thread calls \<^verbatim>\<open>stop()\<close>.
\<close>

record env =
  json_loads :: "string \<Rightarrow> exn + json"
  json_dumps :: "json \<Rightarrow> string"
  container_str :: "json \<Rightarrow> string"
  http :: "event list \<Rightarrow> call \<Rightarrow> reply"
  stop_called :: "event list \<Rightarrow> bool"

text \<open>\<^verbatim>\<open>json.loads(v)\<close>: TypeError unless \<^verbatim>\<open>v\<close> is a string.\<close>

fun py_json_loads :: "env \<Rightarrow> json \<Rightarrow> exn + json" where
  "py_json_loads E (JStr s) = json_loads E s"
| "py_json_loads E v =
     Inl (''the JSON object must be str, bytes or bytearray, not '' @ type_name v)"

text \<open>The text an f-string inserts for a value.\<close>

fun py_str :: "env \<Rightarrow> json \<Rightarrow> string" where
  "py_str E JNull = ''None''"
| "py_str E (JBool b) = (if b then ''True'' else ''False'')"
| "py_str E (JInt i) = int_str i"
| "py_str E (JStr s) = s"
| "py_str E v = container_str E v"

section \<open>The agent\<close>

text \<open>The fields of \<^verbatim>\<open>ComfyUIMeshAgent\<close>, and the events of the run so far.\<close>

record agent =
  mesh_url :: string
  mesh_key :: string
  comfyui_url :: string
  comfyui_distributed_url :: string
  agent_name :: string
  mesh_agent_id :: json
  running :: bool
  trace :: "event list"

definition MESH_API_URL :: string where
  "MESH_API_URL = ''http://localhost:4000''"

definition MESH_API_KEY :: string where
  "MESH_API_KEY = ''openclaw-mesh-default-key''"

definition COMFYUI_URL :: string where
  "COMFYUI_URL = ''http://localhost:8188''"

definition COMFYUI_DISTRIBUTED_URL :: string where
  "COMFYUI_DISTRIBUTED_URL = COMFYUI_URL @ ''/distributed''"

definition AGENT_NAME :: string where
  "AGENT_NAME = ''ComfyUI-Mesh-Agent''"

text \<open>\<^verbatim>\<open>__init__\<close>; \<^verbatim>\<open>agent_name or AGENT_NAME\<close> takes the default for \<^verbatim>\<open>None\<close> and for \<^verbatim>\<open>""\<close>.\<close>

definition init :: "string option \<Rightarrow> agent" where
  "init name =
     \<lparr> mesh_url = MESH_API_URL, mesh_key = MESH_API_KEY, comfyui_url = COMFYUI_URL,
       comfyui_distributed_url = COMFYUI_DISTRIBUTED_URL,
       agent_name = (case name of None \<Rightarrow> AGENT_NAME
                     | Some n \<Rightarrow> if n = [] then AGENT_NAME else n),
       mesh_agent_id = JNull, running = False, trace = [] \<rparr>"

definition py_print :: "string \<Rightarrow> agent \<Rightarrow> agent" where
  "py_print s st = st\<lparr>trace := trace st @ [Print s]\<rparr>"

definition sleep :: "nat \<Rightarrow> agent \<Rightarrow> agent" where
  "sleep n st = st\<lparr>trace := trace st @ [Sleep n]\<rparr>"

text \<open>One HTTP call: the reply is the environment's, the call is recorded.\<close>

definition request :: "env \<Rightarrow> call \<Rightarrow> agent \<Rightarrow> reply \<times> agent" where
  "request E c st = (http E (trace st) c, st\<lparr>trace := trace st @ [Call c]\<rparr>)"

text \<open>Sequencing inside a \<^verbatim>\<open>try\<close> block: the first exception ends the block.\<close>

definition bind_exn :: "exn + 'a \<Rightarrow> ('a \<Rightarrow> exn + 'b) \<Rightarrow> exn + 'b" where
  "bind_exn r f = (case r of Inl e \<Rightarrow> Inl e | Inr v \<Rightarrow> f v)"

definition bind_st :: "exn + 'a \<Rightarrow> agent \<Rightarrow> ('a \<Rightarrow> (exn + 'b) \<times> agent) \<Rightarrow> (exn + 'b) \<times> agent" where
  "bind_st r st f = (case r of Inl e \<Rightarrow> (Inl e, st) | Inr v \<Rightarrow> f v)"

section \<open>Registry client and message channel\<close>

definition mesh_headers :: "agent \<Rightarrow> (string \<times> string) list" where
  "mesh_headers st = [(''X-API-Key'', mesh_key st), (''Content-Type'', ''application/json'')]"

definition register_call :: "agent \<Rightarrow> call" where
  "register_call st =
     Post (mesh_url st @ ''/api/agents/register'') (mesh_headers st)
       (JObj [(''name'', JStr (agent_name st)),
              (''endpoint'', JStr ''http://localhost:18789''),
              (''capabilities'', JArr [JStr ''comfyui_inference'', JStr ''image_generation'',
                 JStr ''video_generation'', JStr ''distributed_inference''])])
       10"

text \<open>
  \<^verbatim>\<open>register_with_mesh\<close>.  The body of the \<^verbatim>\<open>try\<close> returns the boolean or raises;
  the handler prints and returns \<^verbatim>\<open>False\<close>.  The id is assigned only on status 200
  with a body that decodes to a dict.
\<close>

definition register_try :: "env \<Rightarrow> agent \<Rightarrow> (exn + bool) \<times> agent" where
  "register_try E st =
     (case request E (register_call st) st of
        (Raises e, st1) \<Rightarrow> (Inl e, st1)
      | (Response code body, st1) \<Rightarrow>
          if code = 200 then
            bind_st body st1 (\<lambda>data.
            bind_st (py_get data ''agentId'' JNull) st1 (\<lambda>aid.
              let st2 = st1\<lparr>mesh_agent_id := aid\<rparr>
              in (Inr True,
                  py_print (''Registered with mesh! Agent ID: '' @ py_str E aid) st2)))
          else (Inr False, py_print (''Registration failed: '' @ int_str code) st1))"

definition register_with_mesh :: "env \<Rightarrow> agent \<Rightarrow> bool \<times> agent" where
  "register_with_mesh E st =
     (let st0 = py_print (''Registering '' @ agent_name st @ '' with Agent Mesh...'') st
      in case register_try E st0 of
           (Inr b, st1) \<Rightarrow> (b, st1)
         | (Inl e, st1) \<Rightarrow> (False, py_print (''Error registering with mesh: '' @ e) st1))"

definition broadcast_call :: "env \<Rightarrow> agent \<Rightarrow> call" where
  "broadcast_call E st =
     Post (mesh_url st @ ''/api/broadcast'') (mesh_headers st)
       (JObj [(''content'', JStr (json_dumps E (JObj
                [(''type'', JStr ''service_announcement''),
                 (''service'', JStr ''comfyui_distributed''),
                 (''capabilities'', JArr [JStr ''image_generation'', JStr ''video_generation'',
                    JStr ''distributed_inference'', JStr ''multi_gpu_processing'']),
                 (''endpoint'', JStr (comfyui_distributed_url st)),
                 (''api_endpoint'', JStr (comfyui_url st @ ''/api'')),
                 (''distributed_endpoint'', JStr (comfyui_distributed_url st)),
                 (''status'', JStr ''available''),
                 (''gpu'', JStr ''NVIDIA GeForce RTX 5060 Ti (16GB)'')]))),
              (''sender'', JStr (agent_name st)),
              (''priority'', JStr ''normal'')])
       10"

definition broadcast_availability :: "env \<Rightarrow> agent \<Rightarrow> agent" where
  "broadcast_availability E st =
     (case request E (broadcast_call E st) st of
        (Raises e, st1) \<Rightarrow> py_print (''Broadcast error: '' @ e) st1
      | (Response code body, st1) \<Rightarrow>
          if code = 200 then py_print ''Broadcast availability to mesh'' st1
          else py_print (''Broadcast failed: '' @ int_str code) st1)"

definition poll_call :: "env \<Rightarrow> agent \<Rightarrow> call" where
  "poll_call E st =
     Get (mesh_url st @ ''/api/messages/'' @ py_str E (mesh_agent_id st))
       [(''X-API-Key'', mesh_key st)] 5"

text \<open>
  \<^verbatim>\<open>check_mesh_messages\<close>.  The body of the \<^verbatim>\<open>try\<close> can raise (the transport, the
  decoding of the reply, \<^verbatim>\<open>.get\<close> on a reply that is not a dict); the bare
  \<^verbatim>\<open>except\<close> turns every exception into the empty list.  The result type keeps the
  exception branch, so that not raising is a property and not a convention.
\<close>

definition check_try :: "env \<Rightarrow> agent \<Rightarrow> (exn + json) \<times> agent" where
  "check_try E st =
     (case request E (poll_call E st) st of
        (Raises e, st1) \<Rightarrow> (Inl e, st1)
      | (Response code body, st1) \<Rightarrow>
          if code = 200 then
            bind_st body st1 (\<lambda>data. (py_get data ''messages'' (JArr []), st1))
          else (Inr (JArr []), st1))"

definition check_mesh_messages :: "env \<Rightarrow> agent \<Rightarrow> (exn + json) \<times> agent" where
  "check_mesh_messages E st =
     (if \<not> truthy (mesh_agent_id st) then (Inr (JArr []), st)
      else case check_try E st of
             (Inl e, st1) \<Rightarrow> (Inr (JArr []), st1)
           | (Inr v, st1) \<Rightarrow> (Inr v, st1))"

section \<open>Job graphs and their submission\<close>

text \<open>
  The workflow literal of \<^verbatim>\<open>generate_image\<close>.  Its entries are evaluated in the order
  written, so the first \<^verbatim>\<open>.get\<close> that raises is the first one below.
\<close>

definition link :: "string \<Rightarrow> json" where
  "link n = JArr [JStr n, JInt 0]"

definition node :: "string \<Rightarrow> (string \<times> json) list \<Rightarrow> json" where
  "node cls inputs = JObj [(''class_type'', JStr cls), (''inputs'', JObj inputs)]"

definition image_workflow :: "json \<Rightarrow> json \<Rightarrow> exn + json" where
  "image_workflow prompt options =
     bind_exn (py_get prompt ''positive'' (JStr [])) (\<lambda>positive.
     bind_exn (py_get prompt ''negative'' (JStr ''bad quality'')) (\<lambda>negative.
     bind_exn (py_get options ''seed'' (JInt 42)) (\<lambda>seed.
     bind_exn (py_get options ''steps'' (JInt 20)) (\<lambda>steps.
     bind_exn (py_get options ''cfg'' (JInt 8)) (\<lambda>cfg.
     bind_exn (py_get options ''sampler'' (JStr ''euler'')) (\<lambda>sampler.
     bind_exn (py_get options ''model'' (JStr ''sd_xl_base_1.0.safetensors'')) (\<lambda>model.
     bind_exn (py_get options ''width'' (JInt 1024)) (\<lambda>width.
     bind_exn (py_get options ''height'' (JInt 1024)) (\<lambda>height.
     bind_exn (py_get options ''filename'' (JStr ''mesh_generated'')) (\<lambda>filename.
       Inr (JObj
         [(''3'', node ''CLIPTextEncode'' [(''text'', positive), (''clip'', link ''4'')]),
          (''4'', node ''CLIPTextEncode'' [(''text'', negative), (''clip'', link ''4'')]),
          (''5'', node ''KSampler''
             [(''seed'', seed), (''steps'', steps), (''cfg'', cfg),
              (''sampler_name'', sampler), (''scheduler'', JStr ''normal''),
              (''model'', link ''6''), (''positive'', link ''3''),
              (''negative'', link ''4''), (''latent_image'', link ''7'')]),
          (''6'', node ''CheckpointLoaderSimple'' [(''ckpt_name'', model)]),
          (''7'', node ''EmptyLatentImage''
             [(''width'', width), (''height'', height), (''batch_size'', JInt 1)]),
          (''8'', node ''VAEDecode'' [(''samples'', link ''5''), (''vae'', link ''6'')]),
          (''9'', node ''SaveImage''
             [(''images'', link ''8''), (''filename_prefix'', filename)])])))))))))))"

text \<open>The workflow literal of \<^verbatim>\<open>generate_video\<close>.\<close>

definition video_workflow :: "json \<Rightarrow> json \<Rightarrow> exn + json" where
  "video_workflow prompt options =
     bind_exn (py_get prompt ''prompt'' (JStr [])) (\<lambda>text.
     bind_exn (py_get options ''width'' (JInt 1280)) (\<lambda>width.
     bind_exn (py_get options ''height'' (JInt 704)) (\<lambda>height.
     bind_exn (py_get options ''frames'' (JInt 125)) (\<lambda>frames.
     bind_exn (py_get options ''seed'' (JInt 77777)) (\<lambda>seed.
     bind_exn (py_get options ''filename'' (JStr ''mesh_video'')) (\<lambda>filename.
       Inr (JObj
         [(''unet'', node ''UNETLoader''
             [(''unet_name'', JStr ''wan2.2_ti2v_5B_fp16.safetensors'')]),
          (''clip'', node ''CLIPLoader''
             [(''clip_name'', JStr ''umt5_xxl_fp8_e4m3fn_scaled.safetensors''),
              (''type'', JStr ''wan'')]),
          (''vae'', node ''VAELoader'' [(''vae_name'', JStr ''wan2.2_vae.safetensors'')]),
          (''pos'', node ''CLIPTextEncode'' [(''clip'', link ''clip''), (''text'', text)]),
          (''neg'', node ''CLIPTextEncode''
             [(''clip'', link ''clip''), (''text'', JStr ''blurry, distorted, cartoon'')]),
          (''model_shift'', node ''ModelSamplingSD3''
             [(''model'', link ''unet''), (''shift'', JInt 8)]),
          (''i2v'', node ''Wan22ImageToVideoLatent''
             [(''vae'', link ''vae''), (''width'', width), (''height'', height),
              (''length'', frames), (''batch_size'', JInt 1)]),
          (''samp'', node ''KSampler''
             [(''seed'', seed), (''steps'', JInt 20), (''cfg'', JInt 5),
              (''sampler_name'', JStr ''uni_pc''), (''model'', link ''model_shift''),
              (''positive'', link ''pos''), (''negative'', link ''neg''),
              (''latent_image'', link ''i2v'')]),
          (''decode'', node ''VAEDecode'' [(''samples'', link ''samp''), (''vae'', link ''vae'')]),
          (''create_video'', node ''CreateVideo''
             [(''images'', link ''decode''), (''fps'', JInt 24)]),
          (''save'', node ''SaveVideo''
             [(''video'', link ''create_video''), (''filename_prefix'', filename),
              (''format'', JStr ''mp4'')])])))))))"

definition error_result :: "exn \<Rightarrow> json" where
  "error_result e = JObj [(''error'', JStr e)]"

text \<open>
  The part shared by \<^verbatim>\<open>generate_image\<close> and \<^verbatim>\<open>generate_video\<close> after the workflow
  literal: post it to \<^verbatim>\<open>/api/prompt\<close> under a client id, and read the reply.
\<close>

definition prompt_call :: "agent \<Rightarrow> json \<Rightarrow> string \<Rightarrow> call" where
  "prompt_call st workflow client_id =
     Post (comfyui_url st @ ''/api/prompt'') []
       (JObj [(''prompt'', workflow), (''client_id'', JStr client_id)]) 10"

definition submit_try :: "env \<Rightarrow> json \<Rightarrow> string \<Rightarrow> agent \<Rightarrow> (exn + json) \<times> agent" where
  "submit_try E workflow client_id st =
     (case request E (prompt_call st workflow client_id) st of
        (Raises e, st1) \<Rightarrow> (Inl e, st1)
      | (Response code body, st1) \<Rightarrow>
          if code = 200 then
            bind_st body st1 (\<lambda>data.
            bind_st (py_get data ''prompt_id'' JNull) st1 (\<lambda>prompt_id.
              (Inr (JObj [(''status'', JStr ''queued''), (''prompt_id'', prompt_id)]), st1)))
          else (Inr (error_result (''ComfyUI error: '' @ int_str code)), st1))"

definition catch_result :: "(exn + json) \<times> agent \<Rightarrow> json \<times> agent" where
  "catch_result r = (case r of (Inl e, st) \<Rightarrow> (error_result e, st) | (Inr v, st) \<Rightarrow> (v, st))"

definition generate_image :: "env \<Rightarrow> json \<Rightarrow> json \<Rightarrow> agent \<Rightarrow> json \<times> agent" where
  "generate_image E prompt options st =
     catch_result
       (bind_st (image_workflow prompt options) st (\<lambda>workflow.
          submit_try E workflow ''mesh-agent'' st))"

definition generate_video :: "env \<Rightarrow> json \<Rightarrow> json \<Rightarrow> agent \<Rightarrow> json \<times> agent" where
  "generate_video E prompt options st =
     catch_result
       (bind_st (video_workflow prompt options) st (\<lambda>workflow.
          submit_try E workflow ''mesh-agent-video'' st))"

text \<open>\<^verbatim>\<open>queue_distributed_workflow\<close>: the workflow is whatever the request carried.\<close>

definition distributed_payload :: "json \<Rightarrow> json \<Rightarrow> exn + json" where
  "distributed_payload workflow options =
     bind_exn (py_get options ''delegate_master'' (JBool False)) (\<lambda>delegate_master.
     bind_exn (py_get options ''worker_ids'' (JArr [])) (\<lambda>worker_ids.
       Inr (JObj [(''prompt'', workflow), (''client_id'', JStr ''mesh-distributed''),
                  (''delegate_master'', delegate_master),
                  (''enabled_worker_ids'', worker_ids)])))"

definition queue_call :: "agent \<Rightarrow> json \<Rightarrow> call" where
  "queue_call st payload = Post (comfyui_distributed_url st @ ''/queue'') [] payload 10"

definition queue_try :: "env \<Rightarrow> json \<Rightarrow> agent \<Rightarrow> (exn + json) \<times> agent" where
  "queue_try E payload st =
     (case request E (queue_call st payload) st of
        (Raises e, st1) \<Rightarrow> (Inl e, st1)
      | (Response code body, st1) \<Rightarrow>
          if code = 200 then
            bind_st body st1 (\<lambda>data.
            bind_st (py_get data ''prompt_id'' JNull) st1 (\<lambda>prompt_id.
            bind_st (py_get data ''worker_count'' (JInt 1)) st1 (\<lambda>worker_count.
              (Inr (JObj [(''status'', JStr ''distributed_queued''),
                          (''prompt_id'', prompt_id),
                          (''worker_count'', worker_count)]), st1))))
          else (Inr (error_result (''Distributed API error: '' @ int_str code)), st1))"

definition queue_distributed_workflow :: "env \<Rightarrow> json \<Rightarrow> json \<Rightarrow> agent \<Rightarrow> json \<times> agent" where
  "queue_distributed_workflow E workflow options st =
     catch_result
       (bind_st (distributed_payload workflow options) st (\<lambda>payload.
          queue_try E payload st))"

section \<open>Dispatch\<close>

text \<open>
  \<^verbatim>\<open>process_inference_request\<close>: \<^verbatim>\<open>None\<close> for a message of another type, otherwise
  the result of the submission; every exception of the body becomes an error result.
\<close>

definition process_try :: "env \<Rightarrow> json \<Rightarrow> agent \<Rightarrow> (exn + json option) \<times> agent" where
  "process_try E message st =
     bind_st (py_get message ''content'' (JStr ''{}'')) st (\<lambda>raw.
     bind_st (py_json_loads E raw) st (\<lambda>content.
     bind_st (py_get content ''type'' JNull) st (\<lambda>ty.
       if ty \<noteq> JStr ''inference_request'' then (Inr None, st)
       else
     bind_st (py_get content ''request_type'' JNull) st (\<lambda>request_type.
     bind_st (py_get content ''prompt'' JNull) st (\<lambda>prompt.
     bind_st (py_get content ''options'' (JObj [])) st (\<lambda>options.
     bind_st (py_get message ''sender'' JNull) st (\<lambda>sender.
       let st1 = py_print (''Received '' @ py_str E request_type @ '' request from ''
                             @ py_str E sender) st
       in if request_type = JStr ''image_generation'' then
            (case generate_image E prompt options st1 of (r, st2) \<Rightarrow> (Inr (Some r), st2))
          else if request_type = JStr ''video_generation'' then
            (case generate_video E prompt options st1 of (r, st2) \<Rightarrow> (Inr (Some r), st2))
          else if request_type = JStr ''distributed_inference'' then
            (case queue_distributed_workflow E prompt options st1 of
               (r, st2) \<Rightarrow> (Inr (Some r), st2))
          else
            (Inr (Some (error_result (''Unknown request type: '' @ py_str E request_type))),
             st1))))))))"

definition process_inference_request :: "env \<Rightarrow> json \<Rightarrow> agent \<Rightarrow> json option \<times> agent" where
  "process_inference_request E message st =
     (case process_try E message st of
        (Inl e, st1) \<Rightarrow> (Some (error_result e), st1)
      | (Inr r, st1) \<Rightarrow> (r, st1))"

text \<open>
  \<^verbatim>\<open>send_response\<close>.  The payload is built before the \<^verbatim>\<open>try\<close>, and building it
  decodes the content of the original message again: an exception there leaves the
  function.  Inside the \<^verbatim>\<open>try\<close> only the post is made; its reply is not looked at.
\<close>

definition response_payload :: "env \<Rightarrow> agent \<Rightarrow> json \<Rightarrow> json \<Rightarrow> json \<Rightarrow> json" where
  "response_payload E st original_request recipient response =
     JObj [(''content'', JStr (json_dumps E (JObj
              [(''type'', JStr ''inference_response''),
               (''original_request'', original_request),
               (''response'', response)]))),
           (''sender'', JStr (agent_name st)),
           (''recipient'', recipient),
           (''priority'', JStr ''normal'')]"

definition send_payload :: "env \<Rightarrow> agent \<Rightarrow> json \<Rightarrow> json \<Rightarrow> exn + json" where
  "send_payload E st original_message response =
     bind_exn (py_get original_message ''content'' (JStr ''{}'')) (\<lambda>raw.
     bind_exn (py_json_loads E raw) (\<lambda>original_request.
     bind_exn (py_get original_message ''sender'' JNull) (\<lambda>sender.
       Inr (response_payload E st original_request sender response))))"

definition send_call :: "agent \<Rightarrow> json \<Rightarrow> call" where
  "send_call st payload = Post (mesh_url st @ ''/api/messages/send'') (mesh_headers st) payload 10"

definition send_response :: "env \<Rightarrow> json \<Rightarrow> json \<Rightarrow> agent \<Rightarrow> (exn + unit) \<times> agent" where
  "send_response E original_message response st =
     bind_st (send_payload E st original_message response) st (\<lambda>payload.
       case request E (send_call st payload) st of
         (Raises e, st1) \<Rightarrow> (Inr (), py_print (''Failed to send response: '' @ e) st1)
       | (Response code body, st1) \<Rightarrow>
           (case py_get original_message ''sender'' JNull of
              Inl e \<Rightarrow> (Inr (), py_print (''Failed to send response: '' @ e) st1)
            | Inr sender \<Rightarrow>
                (Inr (), py_print (''Sent response to '' @ py_str E sender) st1)))"

section \<open>The listen loop\<close>

text \<open>
  The \<^verbatim>\<open>for msg in messages\<close> loop of \<^verbatim>\<open>listen_for_requests\<close>.  An exception that
  leaves \<^verbatim>\<open>send_response\<close> leaves the loop too: the messages after it are not
  looked at.
\<close>

fun dispatch_messages :: "env \<Rightarrow> json list \<Rightarrow> agent \<Rightarrow> (exn + unit) \<times> agent" where
  "dispatch_messages E [] st = (Inr (), st)"
| "dispatch_messages E (msg # msgs) st =
     (case process_inference_request E msg st of
        (None, st1) \<Rightarrow> dispatch_messages E msgs st1
      | (Some response, st1) \<Rightarrow>
          if truthy response then
            (case send_response E msg response st1 of
               (Inl e, st2) \<Rightarrow> (Inl e, st2)
             | (Inr u, st2) \<Rightarrow> dispatch_messages E msgs st2)
          else dispatch_messages E msgs st1)"

text \<open>The body of the \<^verbatim>\<open>try\<close> inside the \<^verbatim>\<open>while\<close> loop, and one pass of the loop.\<close>

definition cycle_try :: "env \<Rightarrow> agent \<Rightarrow> (exn + unit) \<times> agent" where
  "cycle_try E st =
     (case check_mesh_messages E st of
        (Inl e, st1) \<Rightarrow> (Inl e, st1)
      | (Inr messages, st1) \<Rightarrow>
          bind_st (py_iter messages) st1 (\<lambda>msgs.
            case dispatch_messages E msgs st1 of
              (Inl e, st2) \<Rightarrow> (Inl e, st2)
            | (Inr u, st2) \<Rightarrow> (Inr (), sleep 10 st2)))"

definition listen_cycle :: "env \<Rightarrow> agent \<Rightarrow> agent" where
  "listen_cycle E st =
     (case cycle_try E st of
        (Inr u, st1) \<Rightarrow> st1
      | (Inl e, st1) \<Rightarrow> sleep 30 (py_print (''Error in listen loop: '' @ e) st1))"

definition stop :: "agent \<Rightarrow> agent" where
  "stop st = py_print (agent_name st @ '' stopped'') (st\<lparr>running := False\<rparr>)"

text \<open>
  \<^verbatim>\<open>while self.running\<close>.  The flag is cleared by \<^verbatim>\<open>stop()\<close> only, which another
  thread calls; the environment says, at each test of the flag, whether that has
  happened.  The loop has no other exit, so the model counts passes: \<^verbatim>\<open>None\<close> means
  that the loop is still running after that many.
\<close>

fun listen_loop :: "nat \<Rightarrow> env \<Rightarrow> agent \<Rightarrow> agent option" where
  "listen_loop 0 E st = None"
| "listen_loop (Suc n) E st =
     (if stop_called E (trace st) then Some (stop st)
      else listen_loop n E (listen_cycle E st))"

definition listen_for_requests :: "nat \<Rightarrow> env \<Rightarrow> agent \<Rightarrow> agent option" where
  "listen_for_requests n E st =
     listen_loop n E
       ((py_print (agent_name st @ '' listening for mesh requests...'') st)\<lparr>running := True\<rparr>)"

definition start :: "nat \<Rightarrow> env \<Rightarrow> agent \<Rightarrow> agent option" where
  "start n E st =
     (case register_with_mesh E st of
        (True, st1) \<Rightarrow> listen_for_requests n E (broadcast_availability E st1)
      | (False, st1) \<Rightarrow> Some st1)"

section \<open>Observations on a run\<close>

text \<open>The calls among the events, and the events a step adds to a run.\<close>

fun calls_of :: "event list \<Rightarrow> call list" where
  "calls_of [] = []"
| "calls_of (Call c # es) = c # calls_of es"
| "calls_of (e # es) = calls_of es"

definition added :: "agent \<Rightarrow> agent \<Rightarrow> event list" where
  "added st st' = drop (length (trace st)) (trace st')"

text \<open>An outbound response is a post to the mesh's send endpoint.\<close>

fun is_send :: "agent \<Rightarrow> call \<Rightarrow> bool" where
  "is_send st (Post u h b t) = (u = mesh_url st @ ''/api/messages/send'')"
| "is_send st (Get u h t) = False"

definition responses_sent :: "agent \<Rightarrow> agent \<Rightarrow> call list" where
  "responses_sent st st' = filter (is_send st) (calls_of (added st st'))"

text \<open>Reading a key of a dict, an input of a node of a job graph, the graph of a post.\<close>

fun field :: "json \<Rightarrow> string \<Rightarrow> json option" where
  "field (JObj kvs) k = map_of kvs k"
| "field v k = None"

definition input_of :: "json \<Rightarrow> string \<Rightarrow> string \<Rightarrow> json option" where
  "input_of g n i =
     (case field g n of None \<Rightarrow> None
      | Some nd \<Rightarrow> (case field nd ''inputs'' of None \<Rightarrow> None | Some ins \<Rightarrow> field ins i))"

fun posted_graph :: "call \<Rightarrow> json option" where
  "posted_graph (Post u h b t) = field b ''prompt''"
| "posted_graph (Get u h t) = None"

definition sender_of :: "json \<Rightarrow> json" where
  "sender_of msg = (case field msg ''sender'' of Some v \<Rightarrow> v | None \<Rightarrow> JNull)"





section \<open>A concrete environment\<close>

text \<open>
  Peers and a \<^verbatim>\<open>json\<close> library to run the model on.  The serialiser is right for
  strings that need no escaping; the decoder knows the payloads below and rejects every
  other text the way \<^verbatim>\<open>json.loads\<close> rejects text that starts no JSON value; the
  text printed for a list or a dict is abbreviated.
\<close>

definition dq :: "string \<Rightarrow> string" where
  "dq s = [CHR 0x22] @ s @ [CHR 0x22]"

fun commas :: "string list \<Rightarrow> string" where
  "commas [] = []"
| "commas [s] = s"
| "commas (s # t # ss) = s @ '', '' @ commas (t # ss)"

fun plain_dumps :: "json \<Rightarrow> string" where
  "plain_dumps JNull = ''null''"
| "plain_dumps (JBool b) = (if b then ''true'' else ''false'')"
| "plain_dumps (JInt i) = int_str i"
| "plain_dumps (JStr s) = dq s"
| "plain_dumps (JArr xs) = ''['' @ commas (map plain_dumps xs) @ '']''"
| "plain_dumps (JObj kvs) =
     ''{'' @ commas (map (\<lambda>kv. dq (fst kv) @ '': '' @ plain_dumps (snd kv)) kvs) @ ''}''"

definition ping_payload :: json where
  "ping_payload = JObj [(''type'', JStr ''ping'')]"

definition image_payload :: json where
  "image_payload =
     JObj [(''type'', JStr ''inference_request''),
           (''request_type'', JStr ''image_generation''),
           (''prompt'', JObj [(''positive'', JStr ''a cat'')])]"

definition audio_payload :: json where
  "audio_payload =
     JObj [(''type'', JStr ''inference_request''),
           (''request_type'', JStr ''audio_generation'')]"

definition kindless_payload :: json where
  "kindless_payload = JObj [(''type'', JStr ''inference_request'')]"

definition fanout_payload :: json where
  "fanout_payload =
     JObj [(''type'', JStr ''inference_request''),
           (''request_type'', JStr ''distributed_inference''),
           (''prompt'', JObj [(''1'', JObj [(''class_type'', JStr ''SaveImage'')])]),
           (''options'', JObj [(''worker_ids'', JArr [JStr ''w1'', JStr ''w2''])])]"

definition known_payloads :: "json list" where
  "known_payloads =
     [JObj [], ping_payload, image_payload, audio_payload, kindless_payload, fanout_payload]"

definition demo_loads :: "string \<Rightarrow> exn + json" where
  "demo_loads s =
     (case find (\<lambda>v. plain_dumps v = s) known_payloads of
        Some v \<Rightarrow> Inr v
      | None \<Rightarrow> Inl ''Expecting value: line 1 column 1 (char 0)'')"

text \<open>
  A mesh that registers the agent as \<^verbatim>\<open>agent-7\<close> and hands out \<open>inbox\<close> at every poll,
  and a backend that answers every submission with status \<open>code\<close>.
\<close>

definition demo_http :: "int \<Rightarrow> json \<Rightarrow> event list \<Rightarrow> call \<Rightarrow> reply" where
  "demo_http code inbox es c =
     (case c of
        Get u h t \<Rightarrow> Response 200 (Inr (JObj [(''messages'', inbox)]))
      | Post u h b t \<Rightarrow>
          if u = ''http://localhost:4000/api/agents/register''
          then Response 200 (Inr (JObj [(''agentId'', JStr ''agent-7'')]))
          else if u = ''http://localhost:8188/api/prompt''
          then Response code (Inr (JObj [(''prompt_id'', JStr ''job-1'')]))
          else if u = ''http://localhost:8188/distributed/queue''
          then Response code
                 (Inr (JObj [(''prompt_id'', JStr ''job-2''), (''worker_count'', JInt 2)]))
          else Response 200 (Inr (JObj [])))"

definition unreachable :: "event list \<Rightarrow> call \<Rightarrow> reply" where
  "unreachable es c = Raises ''timed out''"

definition demo_env :: "(event list \<Rightarrow> call \<Rightarrow> reply) \<Rightarrow> env" where
  "demo_env h =
     \<lparr> json_loads = demo_loads, json_dumps = plain_dumps,
       container_str = (\<lambda>v. ''...''), http = h, stop_called = (\<lambda>es. False) \<rparr>"

definition registered :: agent where
  "registered = (init None)\<lparr>mesh_agent_id := JStr ''agent-7''\<rparr>"

text \<open>
  The prompt of \<open>image_payload\<close> and what the three submissions make of it, and the
  graph of a prompt whose text is a wire from node 6.
\<close>

definition cat_prompt :: json where
  "cat_prompt = JObj [(''positive'', JStr ''a cat'')]"

definition cat_image_graph :: json where
  "cat_image_graph = projr (image_workflow cat_prompt (JObj []))"




definition message_from :: "string \<Rightarrow> string \<Rightarrow> json" where
  "message_from peer content = JObj [(''sender'', JStr peer), (''content'', JStr content)]"

text \<open>A step that changes nothing of the agent but adds events to the run.\<close>

definition extends :: "agent \<Rightarrow> agent \<Rightarrow> bool" where
  "extends st st' = (st' = st\<lparr>trace := trace st @ added st st'\<rparr>)"

section \<open>The message channel degrades to the empty batch\<close>

text \<open>
  Claim C8.  \<^verbatim>\<open>check_mesh_messages\<close> returns a value on every input: it never raises.
  When the agent has no id (the id is \<^verbatim>\<open>None\<close> or another falsy value) it returns
  the empty list without making a call; when the transport raises or the status is not
  200 it returns the empty list.
\<close>

theorem poll_degrades_to_empty:
  "(\<exists>v. fst (check_mesh_messages E st) = Inr v) \<and>
   (\<not> truthy (mesh_agent_id st) \<longrightarrow> check_mesh_messages E st = (Inr (JArr []), st)) \<and>
   ((case http E (trace st) (poll_call E st) of
       Raises e \<Rightarrow> True
     | Response code body \<Rightarrow> code \<noteq> 200)
    \<longrightarrow> fst (check_mesh_messages E st) = Inr (JArr []))"
  by (auto simp add: check_mesh_messages_def check_try_def request_def bind_st_def
      split: prod.splits sum.splits reply.splits if_splits)

theorem poll_degrades_to_empty_witness:
  "\<not> truthy (mesh_agent_id (init None))
   \<and> check_mesh_messages (demo_env unreachable) (init None) = (Inr (JArr []), init None)
   \<and> (case http (demo_env unreachable) (trace registered)
              (poll_call (demo_env unreachable) registered) of
         Raises e \<Rightarrow> True
       | Response code body \<Rightarrow> code \<noteq> 200)
   \<and> check_mesh_messages (demo_env unreachable) registered
       = (Inr (JArr []),
          registered\<lparr>trace :=
            [Call (Get ''http://localhost:4000/api/messages/agent-7''
                     [(''X-API-Key'', ''openclaw-mesh-default-key'')] 5)]\<rparr>)"
  using poll_degrades_to_empty [of "demo_env unreachable" "init None"]
        poll_degrades_to_empty [of "demo_env unreachable" registered]
  by (simp add: init_def demo_env_def unreachable_def registered_def check_mesh_messages_def
        check_try_def request_def poll_call_def MESH_API_URL_def MESH_API_KEY_def)

section \<open>Steps only add events\<close>

lemma extendsI: "st' = st\<lparr>trace := trace st @ es\<rparr> \<Longrightarrow> extends st st'"
  by (simp add: extends_def added_def)

lemma extendsD: "extends st st' \<Longrightarrow> \<exists>es. st' = st\<lparr>trace := trace st @ es\<rparr>"
  unfolding extends_def by blast

lemma extends_refl: "extends st st"
  by (rule extendsI [of _ _ "[]"]) simp

lemma extends_trans: "extends a b \<Longrightarrow> extends b c \<Longrightarrow> extends a c"
proof -
  assume "extends a b" "extends b c"
  then obtain es fs where "b = a\<lparr>trace := trace a @ es\<rparr>" "c = b\<lparr>trace := trace b @ fs\<rparr>"
    by (blast dest: extendsD)
  then have "c = a\<lparr>trace := trace a @ (es @ fs)\<rparr>" by simp
  then show ?thesis by (rule extendsI)
qed

lemma extends_print: "extends st (py_print s st)"
  by (rule extendsI) (simp add: py_print_def)

lemma extends_sleep: "extends st (sleep n st)"
  by (rule extendsI) (simp add: sleep_def)

lemma extends_request: "extends st (snd (request E c st))"
  by (rule extendsI) (simp add: request_def)

lemma extends_submit: "extends st (snd (submit_try E w cid st))"
  by (auto simp add: submit_try_def request_def bind_st_def intro!: extendsI
      split: reply.splits sum.splits prod.splits)

lemma extends_queue: "extends st (snd (queue_try E w st))"
  by (auto simp add: queue_try_def request_def bind_st_def intro!: extendsI
      split: reply.splits sum.splits prod.splits)

lemma snd_catch_result: "snd (catch_result r) = snd r"
  by (simp add: catch_result_def split: prod.splits sum.splits)

lemma extends_generate_image: "extends st (snd (generate_image E p o' st))"
  by (cases "image_workflow p o'")
     (simp_all add: generate_image_def snd_catch_result bind_st_def extends_refl extends_submit)

lemma extends_generate_video: "extends st (snd (generate_video E p o' st))"
  by (cases "video_workflow p o'")
     (simp_all add: generate_video_def snd_catch_result bind_st_def extends_refl extends_submit)

lemma extends_queue_distributed: "extends st (snd (queue_distributed_workflow E p o' st))"
  by (cases "distributed_payload p o'")
     (simp_all add: queue_distributed_workflow_def snd_catch_result bind_st_def extends_refl extends_queue)

section \<open>Results and responses\<close>

lemma py_get_dict: "py_get v k d = Inr x \<Longrightarrow> \<exists>kvs. v = JObj kvs"
  by (cases v) simp_all

lemma py_get_sender: "py_get (JObj m) ''sender'' JNull = Inr (sender_of (JObj m))"
  by (simp add: sender_of_def split: option.splits)

lemma send_response_ok:
  assumes "py_get msg ''content'' (JStr ''{}'') = Inr raw" "py_json_loads E raw = Inr v"
  shows "send_response E msg r st =
           (Inr (), st\<lparr>trace := trace st @
              [Call (send_call st (response_payload E st v (sender_of msg) r)),
               Print (case http E (trace st)
                             (send_call st (response_payload E st v (sender_of msg) r)) of
                        Raises e \<Rightarrow> ''Failed to send response: '' @ e
                      | Response code body \<Rightarrow> ''Sent response to '' @ py_str E (sender_of msg))]\<rparr>)"
proof -
  from assms(1) obtain m where m: "msg = JObj m" by (blast dest: py_get_dict)
  have p: "send_payload E st (JObj m) r = Inr (response_payload E st v (sender_of (JObj m)) r)"
    using assms unfolding m
    by (simp add: send_payload_def bind_exn_def py_get_sender del: py_get.simps)
  show ?thesis unfolding m
    by (cases "http E (trace st) (send_call st (response_payload E st v (sender_of (JObj m)) r))")
       (simp_all add: send_response_def p bind_st_def request_def py_print_def py_get_sender
          del: py_get.simps)
qed

lemma send_response_raises:
  assumes "py_get msg ''content'' (JStr ''{}'') = Inr raw" "py_json_loads E raw = Inl e"
  shows "send_response E msg r st = (Inl e, st)"
  using assms by (simp add: send_response_def send_payload_def bind_exn_def bind_st_def)

lemma extends_fields:
  "extends st st' \<Longrightarrow>
     mesh_url st' = mesh_url st \<and> mesh_key st' = mesh_key st \<and> agent_name st' = agent_name st
     \<and> comfyui_url st' = comfyui_url st \<and> mesh_agent_id st' = mesh_agent_id st
     \<and> comfyui_distributed_url st' = comfyui_distributed_url st \<and> running st' = running st"
  by (auto dest!: extendsD)

lemma extends_send_call: "extends st st' \<Longrightarrow> send_call st' p = send_call st p"
  by (simp add: send_call_def mesh_headers_def extends_fields)

lemma extends_response_payload:
  "extends st st' \<Longrightarrow> response_payload E st' v s r = response_payload E st v s r"
  by (simp add: response_payload_def extends_fields)

lemma dispatch_skipped:
  assumes "py_get msg ''content'' (JStr ''{}'') = Inr (JStr s)"
      and "json_loads E s = Inr (JObj c)"
      and "map_of c ''type'' \<noteq> Some (JStr ''inference_request'')"
  shows "process_inference_request E msg st = (None, st)"
  using assms
  by (auto simp add: process_inference_request_def process_try_def bind_st_def
      split: option.splits)

lemma dispatch_aborted:
  assumes "py_get msg ''content'' (JStr ''{}'') = Inr raw"
      and "py_json_loads E raw = Inl e"
  shows "dispatch_messages E (msg # msgs) st = (Inl e, st)"
proof -
  have "process_inference_request E msg st = (Some (error_result e), st)"
    using assms by (simp add: process_inference_request_def process_try_def bind_st_def)
  then show ?thesis
    using send_response_raises [OF assms, of "error_result e" st]
    by (simp add: error_result_def)
qed

section \<open>Dispatch of one message\<close>

lemma added_append: "added st (st\<lparr>trace := trace st @ es\<rparr>) = es"
  by (simp add: added_def)

lemma calls_of_append: "calls_of (es @ fs) = calls_of es @ calls_of fs"
  by (induction es rule: calls_of.induct) simp_all

lemma submit_trace:
  "snd (submit_try E w cid st) = st\<lparr>trace := trace st @ [Call (prompt_call st w cid)]\<rparr>"
  by (simp add: submit_try_def request_def bind_st_def split: reply.splits sum.splits)

lemma queue_trace:
  "snd (queue_try E y st) = st\<lparr>trace := trace st @ [Call (queue_call st y)]\<rparr>"
  by (simp add: queue_try_def request_def bind_st_def split: reply.splits sum.splits)

lemma generate_image_trace:
  "snd (generate_image E p o' st) =
     (case image_workflow p o' of Inl e \<Rightarrow> st
      | Inr g \<Rightarrow> st\<lparr>trace := trace st @ [Call (prompt_call st g ''mesh-agent'')]\<rparr>)"
  by (simp add: generate_image_def snd_catch_result bind_st_def submit_trace split: sum.splits)

lemma generate_video_trace:
  "snd (generate_video E p o' st) =
     (case video_workflow p o' of Inl e \<Rightarrow> st
      | Inr g \<Rightarrow> st\<lparr>trace := trace st @ [Call (prompt_call st g ''mesh-agent-video'')]\<rparr>)"
  by (simp add: generate_video_def snd_catch_result bind_st_def submit_trace split: sum.splits)

lemma queue_distributed_trace:
  "snd (queue_distributed_workflow E w o' st) =
     (case distributed_payload w o' of Inl e \<Rightarrow> st
      | Inr y \<Rightarrow> st\<lparr>trace := trace st @ [Call (queue_call st y)]\<rparr>)"
  by (simp add: queue_distributed_workflow_def snd_catch_result bind_st_def queue_trace
      split: sum.splits)

lemma added_self: "added st st = []"
  by (simp add: added_def)

text \<open>
  Claim C10.  The job graph that \<^verbatim>\<open>generate_image\<close> or \<^verbatim>\<open>generate_video\<close> posts is
  the value of the workflow literal on prompt and options, and nothing is posted when the
  literal raises: the graph does not depend on the agent, on the environment or on what
  happened before, so two runs on the same prompt and options post the same graph.
\<close>

theorem graph_construction_deterministic:
  "map posted_graph (calls_of (added st (snd (generate_image E p o' st))))
     = (case image_workflow p o' of Inl e \<Rightarrow> [] | Inr g \<Rightarrow> [Some g])
   \<and> map posted_graph (calls_of (added st (snd (generate_video E p o' st))))
     = (case video_workflow p o' of Inl e \<Rightarrow> [] | Inr g \<Rightarrow> [Some g])
   \<and> map posted_graph (calls_of (added st (snd (generate_image E p o' st))))
     = map posted_graph (calls_of (added st' (snd (generate_image E' p o' st'))))
   \<and> map posted_graph (calls_of (added st (snd (generate_video E p o' st))))
     = map posted_graph (calls_of (added st' (snd (generate_video E' p o' st'))))"
  by (simp add: generate_image_trace generate_video_trace added_append added_self prompt_call_def
      split: sum.splits)

text \<open>
  Claim C9.  A message whose content decodes to a dict with a \<^verbatim>\<open>type\<close> other than
  \<^verbatim>\<open>inference_request\<close> (or with none) gets no result, and the loop goes on to the rest of
  the batch from the unchanged state: no event, so no response, and no exception.  A
  message without content is the case \<open>s = ''{}''\<close>.
\<close>

theorem other_message_types_skipped:
  assumes "py_get msg ''content'' (JStr ''{}'') = Inr (JStr s)"
      and "json_loads E s = Inr (JObj c)"
      and "map_of c ''type'' \<noteq> Some (JStr ''inference_request'')"
  shows "process_inference_request E msg st = (None, st)
         \<and> dispatch_messages E (msg # msgs) st = dispatch_messages E msgs st"
  using dispatch_skipped [OF assms, of st] by simp

section \<open>Runs in the concrete environment\<close>

lemmas payload_defs =
  demo_loads_def known_payloads_def ping_payload_def audio_payload_def image_payload_def
  kindless_payload_def fanout_payload_def dq_def

lemma loads_ping: "demo_loads (plain_dumps ping_payload) = Inr ping_payload"
  by (simp add: payload_defs)

lemma loads_empty: "demo_loads ''{}'' = Inr (JObj [])"
  by (simp add: payload_defs)

lemma loads_kindless: "demo_loads (plain_dumps kindless_payload) = Inr kindless_payload"
  by (simp add: payload_defs)

lemma loads_audio: "demo_loads (plain_dumps audio_payload) = Inr audio_payload"
  by (simp add: payload_defs)

lemma loads_image: "demo_loads (plain_dumps image_payload) = Inr image_payload"
  by (simp add: payload_defs)

lemma loads_broken: "demo_loads ''not json'' = Inl ''Expecting value: line 1 column 1 (char 0)''"
  by (simp add: payload_defs)

text \<open>
  The skip on a run: a \<^verbatim>\<open>ping\<close> and a message without content.
\<close>

theorem other_message_types_skipped_witness:
  "py_get (message_from ''peer-1'' (plain_dumps ping_payload)) ''content'' (JStr ''{}'')
     = Inr (JStr (plain_dumps ping_payload))
   \<and> json_loads (demo_env unreachable) (plain_dumps ping_payload) = Inr (JObj [(''type'', JStr ''ping'')])
   \<and> map_of [(''type'', JStr ''ping'')] ''type'' \<noteq> Some (JStr ''inference_request'')
   \<and> py_get (JObj [(''sender'', JStr ''peer-2'')]) ''content'' (JStr ''{}'') = Inr (JStr ''{}'')
   \<and> json_loads (demo_env unreachable) ''{}'' = Inr (JObj [])
   \<and> map_of [] ''type'' \<noteq> Some (JStr ''inference_request'')
   \<and> dispatch_messages (demo_env unreachable)
        [message_from ''peer-1'' (plain_dumps ping_payload), JObj [(''sender'', JStr ''peer-2'')]]
        registered = (Inr (), registered)"
proof -
  let ?E = "demo_env unreachable"
  let ?m1 = "message_from ''peer-1'' (plain_dumps ping_payload)"
  let ?m2 = "JObj [(''sender'', JStr ''peer-2'')]"
  have a1: "py_get ?m1 ''content'' (JStr ''{}'') = Inr (JStr (plain_dumps ping_payload))"
    by (simp add: message_from_def)
  have a2: "json_loads ?E (plain_dumps ping_payload) = Inr (JObj [(''type'', JStr ''ping'')])"
    using loads_ping by (simp add: demo_env_def ping_payload_def)
  have a3: "map_of [(''type'', JStr ''ping'')] ''type'' \<noteq> Some (JStr ''inference_request'')"
    by simp
  have b1: "py_get ?m2 ''content'' (JStr ''{}'') = Inr (JStr ''{}'')" by simp
  have b2: "json_loads ?E ''{}'' = Inr (JObj [])"
    using loads_empty by (simp add: demo_env_def)
  have b3: "map_of [] ''type'' \<noteq> Some (JStr ''inference_request'')" by simp
  have "dispatch_messages ?E [?m1, ?m2] registered = (Inr (), registered)"
    using other_message_types_skipped [OF a1 a2 a3, of registered "[?m2]"]
          other_message_types_skipped [OF b1 b2 b3, of registered "[]"]
    by (simp del: dispatch_messages.simps(2) py_get.simps)
  with a1 a2 a3 b1 b2 b3 show ?thesis by blast
qed

text \<open>
  Claim C7.  Registration fails when the transport raises (a timeout is one such
  exception) or the status is not 200, and also when the body of a 200 reply does not
  decode to a dict.  Whenever \<^verbatim>\<open>register_with_mesh\<close> returns \<^verbatim>\<open>False\<close>,
  \<^verbatim>\<open>start\<close> returns at once, whatever the number of passes allowed to the loop: the
  registration post is the only call of the run (no broadcast, no poll, no response),
  and the id and the running flag are what they were; for a new agent the id is
  \<^verbatim>\<open>None\<close>.
\<close>

theorem failed_registration_stops_start:
  "((case http E (trace st @ [Print (''Registering '' @ agent_name st @ '' with Agent Mesh...'')])
            (register_call st) of
       Raises e \<Rightarrow> True
     | Response code body \<Rightarrow> code \<noteq> 200)
    \<longrightarrow> \<not> fst (register_with_mesh E st))
   \<and> (\<not> fst (register_with_mesh E st)
    \<longrightarrow> (\<exists>st'. start n E st = Some st'
           \<and> mesh_agent_id st' = mesh_agent_id st
           \<and> running st' = running st
           \<and> calls_of (added st st') = [register_call st]))"
  by (auto simp add: start_def register_with_mesh_def register_try_def request_def bind_st_def
        py_print_def Let_def register_call_def mesh_headers_def added_def
      split: reply.splits sum.splits prod.splits if_splits bool.splits)

text \<open>
  A registration that times out.
\<close>

theorem failed_registration_stops_start_witness:
  "(case http (demo_env unreachable)
          (trace (init None) @
             [Print (''Registering '' @ agent_name (init None) @ '' with Agent Mesh...'')])
          (register_call (init None)) of
      Raises e \<Rightarrow> True
    | Response code body \<Rightarrow> code \<noteq> 200)
   \<and> \<not> fst (register_with_mesh (demo_env unreachable) (init None))
   \<and> start 3 (demo_env unreachable) (init None)
       = Some ((init None)\<lparr>trace :=
           [Print ''Registering ComfyUI-Mesh-Agent with Agent Mesh...'',
            Call (register_call (init None)),
            Print ''Error registering with mesh: timed out'']\<rparr>)
   \<and> mesh_agent_id (init None) = JNull"
  using failed_registration_stops_start [of "demo_env unreachable" "init None" 3]
  by (simp add: start_def register_with_mesh_def register_try_def request_def bind_st_def
        py_print_def Let_def register_call_def mesh_headers_def demo_env_def unreachable_def
        init_def AGENT_NAME_def)

text \<open>
  Claim C1, on a batch of two: a message whose content is not JSON, then a well-formed
  \<^verbatim>\<open>image_generation\<close> request.  \<^verbatim>\<open>process_inference_request\<close> catches the decoding
  error of the first message and returns an error result; \<^verbatim>\<open>send_response\<close> decodes the
  same content again, outside its \<^verbatim>\<open>try\<close>, and the exception leaves the \<^verbatim>\<open>for\<close>
  loop.  The pass ends in the handler of the \<^verbatim>\<open>while\<close> loop: after the poll there is
  no call at all, so the second message is neither submitted nor answered, where the
  claim has one response.
\<close>

theorem malformed_message_aborts_batch:
  "trace (listen_cycle
            (demo_env (demo_http 200
               (JArr [message_from ''peer-1'' ''not json'',
                      message_from ''peer-2'' (plain_dumps image_payload)])))
            registered)
     = [Call (Get ''http://localhost:4000/api/messages/agent-7''
                [(''X-API-Key'', ''openclaw-mesh-default-key'')] 5),
        Print ''Error in listen loop: Expecting value: line 1 column 1 (char 0)'',
        Sleep 30]
   \<and> responses_sent registered
        (listen_cycle
            (demo_env (demo_http 200
               (JArr [message_from ''peer-1'' ''not json'',
                      message_from ''peer-2'' (plain_dumps image_payload)])))
            registered) = []"
proof -
  let ?bad = "message_from ''peer-1'' ''not json''"
  let ?good = "message_from ''peer-2'' (plain_dumps image_payload)"
  let ?E = "demo_env (demo_http 200 (JArr [?bad, ?good]))"
  let ?st = "registered\<lparr>trace := [Call (poll_call ?E registered)]\<rparr>"
  have poll: "check_mesh_messages ?E registered = (Inr (JArr [?bad, ?good]), ?st)"
    by (simp add: check_mesh_messages_def check_try_def request_def bind_st_def poll_call_def
          demo_env_def demo_http_def registered_def init_def)
  have a1: "py_get ?bad ''content'' (JStr ''{}'') = Inr (JStr ''not json'')"
    by (simp add: message_from_def)
  have a2: "py_json_loads ?E (JStr ''not json'')
              = Inl ''Expecting value: line 1 column 1 (char 0)''"
    using loads_broken by (simp add: demo_env_def)
  have d: "dispatch_messages ?E [?bad, ?good] ?st
          = (Inl ''Expecting value: line 1 column 1 (char 0)'', ?st)"
    by (rule dispatch_aborted [OF a1 a2])
  have c: "cycle_try ?E registered = (Inl ''Expecting value: line 1 column 1 (char 0)'', ?st)"
    by (simp only: cycle_try_def poll bind_st_def py_iter.simps d prod.case sum.case)
  have t: "trace (listen_cycle ?E registered)
     = [Call (Get ''http://localhost:4000/api/messages/agent-7''
                [(''X-API-Key'', ''openclaw-mesh-default-key'')] 5),
        Print ''Error in listen loop: Expecting value: line 1 column 1 (char 0)'',
        Sleep 30]"
    unfolding listen_cycle_def c
    by (simp add: py_print_def sleep_def poll_call_def demo_env_def
          registered_def init_def MESH_API_URL_def MESH_API_KEY_def)
  have "trace registered = []" by (simp add: registered_def init_def)
  then have "responses_sent registered (listen_cycle ?E registered) = []"
    by (simp add: responses_sent_def added_def t)
  with t show ?thesis by simp
qed

section \<open>Job graphs and submissions\<close>


lemma int_str_500: "int_str 500 = ''500''"
  by (simp add: int_str_def nat_str.simps digit_char_def)

section \<open>Shapes of results and the response to a request\<close>

lemma submit_dicts:
  "fst (submit_try E w cid st) = Inr r \<Longrightarrow>
     (\<exists>e. r = JObj [(''error'', JStr e)])
     \<or> (\<exists>h. r = JObj [(''status'', JStr ''queued''), (''prompt_id'', h)])"
  by (auto simp add: submit_try_def request_def bind_st_def error_result_def
      split: reply.splits sum.splits if_splits)

lemma queue_dicts:
  "fst (queue_try E y st) = Inr r \<Longrightarrow>
     (\<exists>e. r = JObj [(''error'', JStr e)])
     \<or> (\<exists>h n. r = JObj [(''status'', JStr ''distributed_queued''), (''prompt_id'', h),
                        (''worker_count'', n)])"
  by (auto simp add: queue_try_def request_def bind_st_def error_result_def
      split: reply.splits sum.splits if_splits)

lemma bind_submit_dicts:
  "fst (bind_st x st (\<lambda>w. submit_try E w cid st)) = Inr r \<Longrightarrow>
     (\<exists>e. r = JObj [(''error'', JStr e)])
     \<or> (\<exists>h. r = JObj [(''status'', JStr ''queued''), (''prompt_id'', h)])"
  by (cases x) (auto simp add: bind_st_def dest: submit_dicts)

lemma bind_queue_dicts:
  "fst (bind_st x st (\<lambda>y. queue_try E y st)) = Inr r \<Longrightarrow>
     (\<exists>e. r = JObj [(''error'', JStr e)])
     \<or> (\<exists>h n. r = JObj [(''status'', JStr ''distributed_queued''), (''prompt_id'', h),
                        (''worker_count'', n)])"
  by (cases x) (auto simp add: bind_st_def dest: queue_dicts)

lemma catch_dicts:
  "(\<And>r. fst x = Inr r \<Longrightarrow> (\<exists>e. r = JObj [(''error'', JStr e)]) \<or> P r) \<Longrightarrow>
     (\<exists>e. fst (catch_result x) = JObj [(''error'', JStr e)]) \<or> P (fst (catch_result x))"
  by (cases x) (auto simp add: catch_result_def error_result_def split: sum.splits)

lemma generate_image_dicts:
  "(\<exists>e. fst (generate_image E p o' st) = JObj [(''error'', JStr e)])
   \<or> (\<exists>h. fst (generate_image E p o' st)
              = JObj [(''status'', JStr ''queued''), (''prompt_id'', h)])"
  unfolding generate_image_def by (rule catch_dicts) (rule bind_submit_dicts)

lemma generate_video_dicts:
  "(\<exists>e. fst (generate_video E p o' st) = JObj [(''error'', JStr e)])
   \<or> (\<exists>h. fst (generate_video E p o' st)
              = JObj [(''status'', JStr ''queued''), (''prompt_id'', h)])"
  unfolding generate_video_def by (rule catch_dicts) (rule bind_submit_dicts)

lemma queue_distributed_dicts:
  "(\<exists>e. fst (queue_distributed_workflow E p o' st) = JObj [(''error'', JStr e)])
   \<or> (\<exists>h n. fst (queue_distributed_workflow E p o' st)
              = JObj [(''status'', JStr ''distributed_queued''), (''prompt_id'', h),
                      (''worker_count'', n)])"
  unfolding queue_distributed_workflow_def by (rule catch_dicts) (rule bind_queue_dicts)

lemma generate_image_pair:
  "generate_image E p o' st = (r, st') \<Longrightarrow> truthy r \<and> extends st st'"
  using generate_image_dicts [of E p o' st] extends_generate_image [of st E p o'] by auto

lemma generate_video_pair:
  "generate_video E p o' st = (r, st') \<Longrightarrow> truthy r \<and> extends st st'"
  using generate_video_dicts [of E p o' st] extends_generate_video [of st E p o'] by auto

lemma queue_distributed_pair:
  "queue_distributed_workflow E p o' st = (r, st') \<Longrightarrow> truthy r \<and> extends st st'"
  using queue_distributed_dicts [of E p o' st] extends_queue_distributed [of st E p o'] by auto

lemma process_try_pair:
  "process_try E msg st = (x, st') \<Longrightarrow>
     extends st st' \<and> (\<forall>r. x = Inr (Some r) \<longrightarrow> truthy r)"
  unfolding process_try_def bind_st_def
  by (auto split: sum.splits if_splits prod.splits
      dest!: generate_image_pair generate_video_pair queue_distributed_pair
      intro: extends_refl extends_print extends_trans [OF extends_print]
      simp add: error_result_def Let_def simp del: py_get.simps)

lemma process_pair:
  "process_inference_request E msg st = (Some r, st') \<Longrightarrow> extends st st' \<and> truthy r"
  unfolding process_inference_request_def
  by (auto split: sum.splits prod.splits dest!: process_try_pair simp add: error_result_def)

text \<open>
  Every result returned for a message whose content decodes is posted to the mesh, for
  the sender of the message, with the decoded request; then the loop goes on.
\<close>

lemma dispatch_answered:
  assumes "py_get msg ''content'' (JStr ''{}'') = Inr raw"
      and "py_json_loads E raw = Inr v"
      and "py_get msg ''sender'' JNull = Inr sender"
      and "process_inference_request E msg st = (Some r, st1)"
  shows "\<exists>line. dispatch_messages E (msg # msgs) st =
         dispatch_messages E msgs
           (st1\<lparr>trace := trace st1 @
              [Call (Post (mesh_url st @ ''/api/messages/send'')
                       [(''X-API-Key'', mesh_key st), (''Content-Type'', ''application/json'')]
                       (JObj [(''content'', JStr (json_dumps E (JObj
                                 [(''type'', JStr ''inference_response''),
                                  (''original_request'', v),
                                  (''response'', r)]))),
                              (''sender'', JStr (agent_name st)),
                              (''recipient'', sender),
                              (''priority'', JStr ''normal'')])
                       10),
               Print line]\<rparr>)"
proof -
  from assms(4) have ext: "extends st st1" and ok: "truthy r"
    by (auto dest: process_pair)
  from assms(1) obtain m where m: "msg = JObj m" by (blast dest: py_get_dict)
  have s: "sender_of msg = sender"
    using assms(3) py_get_sender [of m] by (simp add: m del: py_get.simps)
  have "dispatch_messages E (msg # msgs) st =
         dispatch_messages E msgs
           (st1\<lparr>trace := trace st1 @
              [Call (send_call st (response_payload E st v sender r)),
               Print (case http E (trace st1) (send_call st (response_payload E st v sender r)) of
                        Raises e \<Rightarrow> ''Failed to send response: '' @ e
                      | Response code body \<Rightarrow> ''Sent response to '' @ py_str E sender)]\<rparr>)"
    using send_response_ok [OF assms(1,2), of r st1, unfolded s]
    by (simp add: assms(4) ok extends_send_call [OF ext] extends_response_payload [OF ext])
  then show ?thesis
    unfolding send_call_def response_payload_def mesh_headers_def by blast
qed

text \<open>Where a request goes, with the defaults for what it leaves out.\<close>

lemma request_routed:
  assumes "py_get msg ''content'' (JStr ''{}'') = Inr (JStr s)"
      and "json_loads E s = Inr (JObj c)"
      and "map_of c ''type'' = Some (JStr ''inference_request'')"
      and "py_get (JObj c) ''request_type'' JNull = Inr kind"
      and "py_get (JObj c) ''prompt'' JNull = Inr prompt"
      and "py_get (JObj c) ''options'' (JObj []) = Inr options"
      and "py_get msg ''sender'' JNull = Inr sender"
      and "st1 = st\<lparr>trace := trace st @
                   [Print (''Received '' @ py_str E kind @ '' request from ''
                             @ py_str E sender)]\<rparr>"
  shows "process_inference_request E msg st =
           (if kind = JStr ''image_generation''
            then (Some (fst (generate_image E prompt options st1)),
                  snd (generate_image E prompt options st1))
            else if kind = JStr ''video_generation''
            then (Some (fst (generate_video E prompt options st1)),
                  snd (generate_video E prompt options st1))
            else if kind = JStr ''distributed_inference''
            then (Some (fst (queue_distributed_workflow E prompt options st1)),
                  snd (queue_distributed_workflow E prompt options st1))
            else (Some (JObj [(''error'', JStr (''Unknown request type: '' @ py_str E kind))]),
                  st1))"
proof -
  from assms(1) obtain m where m: "msg = JObj m" by (blast dest: py_get_dict)
  show ?thesis
    using assms unfolding m
    by (auto simp add: process_inference_request_def process_try_def bind_st_def Let_def
          py_print_def error_result_def case_prod_beta split: option.splits)
qed

section \<open>Submissions and their replies\<close>

lemma image_workflow_defaults:
  "image_workflow (JObj ps) (JObj []) =
     Inr (JObj
       [(''3'', JObj [(''class_type'', JStr ''CLIPTextEncode''),
                      (''inputs'', JObj
                         [(''text'', case map_of ps ''positive'' of
                                       None \<Rightarrow> JStr [] | Some v \<Rightarrow> v),
                          (''clip'', JArr [JStr ''4'', JInt 0])])]),
        (''4'', JObj [(''class_type'', JStr ''CLIPTextEncode''),
                      (''inputs'', JObj
                         [(''text'', case map_of ps ''negative'' of
                                       None \<Rightarrow> JStr ''bad quality'' | Some v \<Rightarrow> v),
                          (''clip'', JArr [JStr ''4'', JInt 0])])]),
        (''5'', JObj [(''class_type'', JStr ''KSampler''),
                      (''inputs'', JObj
                         [(''seed'', JInt 42), (''steps'', JInt 20), (''cfg'', JInt 8),
                          (''sampler_name'', JStr ''euler''), (''scheduler'', JStr ''normal''),
                          (''model'', JArr [JStr ''6'', JInt 0]),
                          (''positive'', JArr [JStr ''3'', JInt 0]),
                          (''negative'', JArr [JStr ''4'', JInt 0]),
                          (''latent_image'', JArr [JStr ''7'', JInt 0])])]),
        (''6'', JObj [(''class_type'', JStr ''CheckpointLoaderSimple''),
                      (''inputs'', JObj [(''ckpt_name'', JStr ''sd_xl_base_1.0.safetensors'')])]),
        (''7'', JObj [(''class_type'', JStr ''EmptyLatentImage''),
                      (''inputs'', JObj
                         [(''width'', JInt 1024), (''height'', JInt 1024),
                          (''batch_size'', JInt 1)])]),
        (''8'', JObj [(''class_type'', JStr ''VAEDecode''),
                      (''inputs'', JObj
                         [(''samples'', JArr [JStr ''5'', JInt 0]),
                          (''vae'', JArr [JStr ''6'', JInt 0])])]),
        (''9'', JObj [(''class_type'', JStr ''SaveImage''),
                      (''inputs'', JObj
                         [(''images'', JArr [JStr ''8'', JInt 0]),
                          (''filename_prefix'', JStr ''mesh_generated'')])])])"
  by (simp add: image_workflow_def bind_exn_def node_def link_def)

lemma generate_image_posts:
  assumes "image_workflow p o' = Inr g"
      and "c = Post (comfyui_url st @ ''/api/prompt'') []
                 (JObj [(''prompt'', g), (''client_id'', JStr ''mesh-agent'')]) 10"
  shows "snd (generate_image E p o' st) = st\<lparr>trace := trace st @ [Call c]\<rparr>"
  using assms by (simp add: generate_image_trace prompt_call_def)

lemma generate_image_accepted:
  assumes "image_workflow p o' = Inr g"
      and "c = Post (comfyui_url st @ ''/api/prompt'') []
                 (JObj [(''prompt'', g), (''client_id'', JStr ''mesh-agent'')]) 10"
      and "http E (trace st) c = Response 200 (Inr (JObj body))"
  shows "fst (generate_image E p o' st)
             = JObj [(''status'', JStr ''queued''),
                     (''prompt_id'', case map_of body ''prompt_id'' of
                                       None \<Rightarrow> JNull | Some h \<Rightarrow> h)]"
  using assms
  by (simp add: generate_image_def bind_st_def submit_try_def request_def catch_result_def
        prompt_call_def)

lemma generate_image_rejected:
  assumes "image_workflow p o' = Inr g"
      and "c = Post (comfyui_url st @ ''/api/prompt'') []
                 (JObj [(''prompt'', g), (''client_id'', JStr ''mesh-agent'')]) 10"
      and "http E (trace st) c = Response code b" and "code \<noteq> 200"
  shows "fst (generate_image E p o' st)
             = JObj [(''error'', JStr (''ComfyUI error: '' @ int_str code))]"
  using assms
  by (simp add: generate_image_def bind_st_def submit_try_def request_def catch_result_def
        prompt_call_def error_result_def)


lemma queue_distributed_posts:
  assumes "distributed_payload w o' = Inr y"
      and "c = Post (comfyui_distributed_url st @ ''/queue'') [] y 10"
  shows "snd (queue_distributed_workflow E w o' st) = st\<lparr>trace := trace st @ [Call c]\<rparr>"
  using assms by (simp add: queue_distributed_trace queue_call_def)

lemma queue_distributed_accepted:
  assumes "distributed_payload w o' = Inr y"
      and "c = Post (comfyui_distributed_url st @ ''/queue'') [] y 10"
      and "http E (trace st) c = Response 200 (Inr (JObj body))"
  shows "fst (queue_distributed_workflow E w o' st)
             = JObj [(''status'', JStr ''distributed_queued''),
                     (''prompt_id'', case map_of body ''prompt_id'' of
                                       None \<Rightarrow> JNull | Some h \<Rightarrow> h),
                     (''worker_count'', case map_of body ''worker_count'' of
                                          None \<Rightarrow> JInt 1 | Some n \<Rightarrow> n)]"
  using assms
  by (simp add: queue_distributed_workflow_def bind_st_def queue_try_def request_def
        catch_result_def queue_call_def)

lemma queue_distributed_rejected:
  assumes "distributed_payload w o' = Inr y"
      and "c = Post (comfyui_distributed_url st @ ''/queue'') [] y 10"
      and "http E (trace st) c = Response code b" and "code \<noteq> 200"
  shows "fst (queue_distributed_workflow E w o' st)
             = JObj [(''error'', JStr (''Distributed API error: '' @ int_str code))]"
  using assms
  by (simp add: queue_distributed_workflow_def bind_st_def queue_try_def request_def
        catch_result_def queue_call_def error_result_def)

text \<open>
  Claim C5.  A message whose content decodes to an \<^verbatim>\<open>inference_request\<close> of kind
  \<^verbatim>\<open>image_generation\<close> with a prompt that is a dict and options that are empty or absent
  is routed to \<^verbatim>\<open>generate_image\<close>: after the printed line the only event is one post to
  \<^verbatim>\<open><comfyui_url>/api/prompt\<close>, with timeout 10 and client id \<^verbatim>\<open>mesh-agent\<close>, of the graph
  with seed 42, steps 20, cfg 8, sampler \<^verbatim>\<open>euler\<close>, width and height 1024 and checkpoint
  \<^verbatim>\<open>sd_xl_base_1.0.safetensors\<close>.  A reply with status exactly 200 whose body is a dict
  gives \<^verbatim>\<open>{status: queued, prompt_id: <the prompt_id of the body>}\<close>; a reply with any other
  status, the other success statuses 201 to 299 among them, gives
  \<^verbatim>\<open>{error: ComfyUI error: <status>}\<close>.
\<close>

theorem image_request_defaults:
  assumes "py_get msg ''content'' (JStr ''{}'') = Inr (JStr s)"
      and "json_loads E s = Inr (JObj c)"
      and "map_of c ''type'' = Some (JStr ''inference_request'')"
      and "map_of c ''request_type'' = Some (JStr ''image_generation'')"
      and "map_of c ''prompt'' = Some (JObj ps)"
      and "py_get (JObj c) ''options'' (JObj []) = Inr (JObj [])"
      and "py_get msg ''sender'' JNull = Inr sender"
      and "received = Print (''Received image_generation request from '' @ py_str E sender)"
      and "submission =
             Post (comfyui_url st @ ''/api/prompt'') []
               (JObj [(''prompt'', JObj
                  [(''3'', JObj [(''class_type'', JStr ''CLIPTextEncode''),
                      (''inputs'', JObj
                         [(''text'', case map_of ps ''positive'' of
                                       None \<Rightarrow> JStr [] | Some v \<Rightarrow> v),
                          (''clip'', JArr [JStr ''4'', JInt 0])])]),
                   (''4'', JObj [(''class_type'', JStr ''CLIPTextEncode''),
                      (''inputs'', JObj
                         [(''text'', case map_of ps ''negative'' of
                                       None \<Rightarrow> JStr ''bad quality'' | Some v \<Rightarrow> v),
                          (''clip'', JArr [JStr ''4'', JInt 0])])]),
                   (''5'', JObj [(''class_type'', JStr ''KSampler''),
                      (''inputs'', JObj
                         [(''seed'', JInt 42), (''steps'', JInt 20), (''cfg'', JInt 8),
                          (''sampler_name'', JStr ''euler''), (''scheduler'', JStr ''normal''),
                          (''model'', JArr [JStr ''6'', JInt 0]),
                          (''positive'', JArr [JStr ''3'', JInt 0]),
                          (''negative'', JArr [JStr ''4'', JInt 0]),
                          (''latent_image'', JArr [JStr ''7'', JInt 0])])]),
                   (''6'', JObj [(''class_type'', JStr ''CheckpointLoaderSimple''),
                      (''inputs'', JObj [(''ckpt_name'', JStr ''sd_xl_base_1.0.safetensors'')])]),
                   (''7'', JObj [(''class_type'', JStr ''EmptyLatentImage''),
                      (''inputs'', JObj
                         [(''width'', JInt 1024), (''height'', JInt 1024),
                          (''batch_size'', JInt 1)])]),
                   (''8'', JObj [(''class_type'', JStr ''VAEDecode''),
                      (''inputs'', JObj
                         [(''samples'', JArr [JStr ''5'', JInt 0]),
                          (''vae'', JArr [JStr ''6'', JInt 0])])]),
                   (''9'', JObj [(''class_type'', JStr ''SaveImage''),
                      (''inputs'', JObj
                         [(''images'', JArr [JStr ''8'', JInt 0]),
                          (''filename_prefix'', JStr ''mesh_generated'')])])]),
                 (''client_id'', JStr ''mesh-agent'')]) 10"
  shows "snd (process_inference_request E msg st)
           = st\<lparr>trace := trace st @ [received, Call submission]\<rparr>
         \<and> (http E (trace st @ [received]) submission = Response 200 (Inr (JObj body))
            \<longrightarrow> fst (process_inference_request E msg st)
                = Some (JObj [(''status'', JStr ''queued''),
                              (''prompt_id'', case map_of body ''prompt_id'' of
                                                None \<Rightarrow> JNull | Some h \<Rightarrow> h)]))
         \<and> (http E (trace st @ [received]) submission = Response code b \<and> code \<noteq> 200
            \<longrightarrow> fst (process_inference_request E msg st)
                = Some (JObj [(''error'', JStr (''ComfyUI error: '' @ int_str code))]))"
proof -
  let ?st1 = "st\<lparr>trace := trace st @ [received]\<rparr>"
  have k: "py_get (JObj c) ''request_type'' JNull = Inr (JStr ''image_generation'')"
    and p: "py_get (JObj c) ''prompt'' JNull = Inr (JObj ps)"
    using assms(4,5) by simp_all
  have st1: "?st1 = st\<lparr>trace := trace st @
                   [Print (''Received '' @ py_str E (JStr ''image_generation'')
                             @ '' request from '' @ py_str E sender)]\<rparr>"
    by (simp add: assms(8))
  have routed: "process_inference_request E msg st =
                  (Some (fst (generate_image E (JObj ps) (JObj []) ?st1)),
                   snd (generate_image E (JObj ps) (JObj []) ?st1))"
    using request_routed [OF assms(1,2,3) k p assms(6,7) st1] by simp
  have c: "submission = Post (comfyui_url ?st1 @ ''/api/prompt'') []
             (JObj [(''prompt'', projr (image_workflow (JObj ps) (JObj []))),
                    (''client_id'', JStr ''mesh-agent'')]) 10"
    by (simp add: assms(9) image_workflow_defaults)
  have g: "image_workflow (JObj ps) (JObj []) = Inr (projr (image_workflow (JObj ps) (JObj [])))"
    by (simp add: image_workflow_defaults)
  show ?thesis
    using generate_image_posts [OF g c, of E] generate_image_accepted [OF g c, of E body]
      generate_image_rejected [OF g c, of E code b]
    by (simp add: routed)
qed

text \<open>
  Claim C6.  A message whose content decodes to an \<^verbatim>\<open>inference_request\<close> of kind
  \<^verbatim>\<open>distributed_inference\<close> with options that are a dict or absent is routed to
  \<^verbatim>\<open>queue_distributed_workflow\<close>: after the printed line the only event is one post to
  \<^verbatim>\<open><comfyui_distributed_url>/queue\<close>, with timeout 10, of the payload that holds the prompt
  as the request gave it (\<^verbatim>\<open>None\<close> when it gave none), the client id
  \<^verbatim>\<open>mesh-distributed\<close>, the option \<^verbatim>\<open>delegate_master\<close> (default \<^verbatim>\<open>False\<close>) and the
  option \<^verbatim>\<open>worker_ids\<close> as given (default \<^verbatim>\<open>[]\<close>).  A reply with status exactly 200 whose
  body is a dict gives \<^verbatim>\<open>status: distributed_queued\<close> with the \<^verbatim>\<open>prompt_id\<close> of the body
  and its \<^verbatim>\<open>worker_count\<close> (default 1); a reply with any other status, the other success
  statuses among them, gives \<^verbatim>\<open>{error: Distributed API error: <status>}\<close>.
\<close>

theorem distributed_request_submitted:
  assumes "py_get msg ''content'' (JStr ''{}'') = Inr (JStr s)"
      and "json_loads E s = Inr (JObj c)"
      and "map_of c ''type'' = Some (JStr ''inference_request'')"
      and "map_of c ''request_type'' = Some (JStr ''distributed_inference'')"
      and "py_get (JObj c) ''prompt'' JNull = Inr w"
      and "py_get (JObj c) ''options'' (JObj []) = Inr (JObj os)"
      and "py_get msg ''sender'' JNull = Inr sender"
      and "received = Print (''Received distributed_inference request from '' @ py_str E sender)"
      and "submission =
             Post (comfyui_distributed_url st @ ''/queue'') []
               (JObj [(''prompt'', w), (''client_id'', JStr ''mesh-distributed''),
                      (''delegate_master'', case map_of os ''delegate_master'' of
                                              None \<Rightarrow> JBool False | Some v \<Rightarrow> v),
                      (''enabled_worker_ids'', case map_of os ''worker_ids'' of
                                                 None \<Rightarrow> JArr [] | Some v \<Rightarrow> v)]) 10"
  shows "snd (process_inference_request E msg st)
           = st\<lparr>trace := trace st @ [received, Call submission]\<rparr>
         \<and> (http E (trace st @ [received]) submission = Response 200 (Inr (JObj body))
            \<longrightarrow> fst (process_inference_request E msg st)
                = Some (JObj [(''status'', JStr ''distributed_queued''),
                              (''prompt_id'', case map_of body ''prompt_id'' of
                                                None \<Rightarrow> JNull | Some h \<Rightarrow> h),
                              (''worker_count'', case map_of body ''worker_count'' of
                                                   None \<Rightarrow> JInt 1 | Some n \<Rightarrow> n)]))
         \<and> (http E (trace st @ [received]) submission = Response code b \<and> code \<noteq> 200
            \<longrightarrow> fst (process_inference_request E msg st)
                = Some (JObj [(''error'', JStr (''Distributed API error: '' @ int_str code))]))"
proof -
  let ?st1 = "st\<lparr>trace := trace st @ [received]\<rparr>"
  let ?y = "JObj [(''prompt'', w), (''client_id'', JStr ''mesh-distributed''),
                  (''delegate_master'', case map_of os ''delegate_master'' of
                                          None \<Rightarrow> JBool False | Some v \<Rightarrow> v),
                  (''enabled_worker_ids'', case map_of os ''worker_ids'' of
                                             None \<Rightarrow> JArr [] | Some v \<Rightarrow> v)]"
  have k: "py_get (JObj c) ''request_type'' JNull = Inr (JStr ''distributed_inference'')"
    using assms(4) by simp
  have st1: "?st1 = st\<lparr>trace := trace st @
                   [Print (''Received '' @ py_str E (JStr ''distributed_inference'')
                             @ '' request from '' @ py_str E sender)]\<rparr>"
    by (simp add: assms(8))
  have routed: "process_inference_request E msg st =
                  (Some (fst (queue_distributed_workflow E w (JObj os) ?st1)),
                   snd (queue_distributed_workflow E w (JObj os) ?st1))"
    using request_routed [OF assms(1,2,3) k assms(5,6,7) st1] by simp
  have y: "distributed_payload w (JObj os) = Inr ?y"
    by (simp add: distributed_payload_def bind_exn_def)
  have c: "submission = Post (comfyui_distributed_url ?st1 @ ''/queue'') [] ?y 10"
    by (simp add: assms(9))
  show ?thesis
    using queue_distributed_posts [OF y c, of E] queue_distributed_accepted [OF y c, of E body]
      queue_distributed_rejected [OF y c, of E code b]
    by (simp add: routed)
qed

section \<open>Unknown kinds, result dicts and the wiring of the image graph\<close>

text \<open>
  Claim C3.  A decoded \<^verbatim>\<open>inference_request\<close> whose \<^verbatim>\<open>request_type\<close> is none of the three
  kinds (\<^verbatim>\<open>None\<close> when the key is missing) is answered with the dict
  \<^verbatim>\<open>{error: Unknown request type: <kind>}\<close>, which has the key \<^verbatim>\<open>error\<close> and no key
  \<^verbatim>\<open>status\<close>.  Producing it adds the printed line to the run and nothing else: no graph is
  built and no backend is called, whatever prompt and options are.  The dispatch loop then
  posts this result, with the decoded request, to \<^verbatim>\<open><mesh_url>/api/messages/send\<close> with
  the sender of the message as recipient, prints one line, and goes on with the rest of the
  batch.
\<close>

theorem unknown_kind_error_response:
  assumes "py_get msg ''content'' (JStr ''{}'') = Inr (JStr s)"
      and "json_loads E s = Inr (JObj c)"
      and "map_of c ''type'' = Some (JStr ''inference_request'')"
      and "py_get (JObj c) ''request_type'' JNull = Inr kind"
      and "kind \<notin> {JStr ''image_generation'', JStr ''video_generation'',
                   JStr ''distributed_inference''}"
      and "py_get msg ''sender'' JNull = Inr sender"
      and "received = Print (''Received '' @ py_str E kind @ '' request from ''
                               @ py_str E sender)"
      and "answer = JObj [(''error'', JStr (''Unknown request type: '' @ py_str E kind))]"
  shows "process_inference_request E msg st
           = (Some answer, st\<lparr>trace := trace st @ [received]\<rparr>)
         \<and> (\<exists>line. dispatch_messages E (msg # msgs) st =
               dispatch_messages E msgs
                 (st\<lparr>trace := trace st @
                    [received,
                     Call (Post (mesh_url st @ ''/api/messages/send'')
                             [(''X-API-Key'', mesh_key st),
                              (''Content-Type'', ''application/json'')]
                             (JObj [(''content'', JStr (json_dumps E (JObj
                                       [(''type'', JStr ''inference_response''),
                                        (''original_request'', JObj c),
                                        (''response'', answer)]))),
                                    (''sender'', JStr (agent_name st)),
                                    (''recipient'', sender),
                                    (''priority'', JStr ''normal'')])
                             10),
                     Print line]\<rparr>))"
proof -
  let ?st1 = "st\<lparr>trace := trace st @ [received]\<rparr>"
  have p: "py_get (JObj c) ''prompt'' JNull
             = Inr (case map_of c ''prompt'' of None \<Rightarrow> JNull | Some v \<Rightarrow> v)"
    and o: "py_get (JObj c) ''options'' (JObj [])
             = Inr (case map_of c ''options'' of None \<Rightarrow> JObj [] | Some v \<Rightarrow> v)"
    by simp_all
  have st1: "?st1 = st\<lparr>trace := trace st @
                   [Print (''Received '' @ py_str E kind @ '' request from ''
                             @ py_str E sender)]\<rparr>"
    by (simp add: assms(7))
  have r: "process_inference_request E msg st = (Some answer, ?st1)"
    using request_routed [OF assms(1,2,3,4) p o assms(6) st1] assms(5) by (simp add: assms(8))
  have l: "py_json_loads E (JStr s) = Inr (JObj c)" using assms(2) by simp
  from dispatch_answered [OF assms(1) l assms(6) r, of msgs]
  have "\<exists>line. dispatch_messages E (msg # msgs) st =
               dispatch_messages E msgs
                 (st\<lparr>trace := trace st @
                    [received,
                     Call (Post (mesh_url st @ ''/api/messages/send'')
                             [(''X-API-Key'', mesh_key st),
                              (''Content-Type'', ''application/json'')]
                             (JObj [(''content'', JStr (json_dumps E (JObj
                                       [(''type'', JStr ''inference_response''),
                                        (''original_request'', JObj c),
                                        (''response'', answer)]))),
                                    (''sender'', JStr (agent_name st)),
                                    (''recipient'', sender),
                                    (''priority'', JStr ''normal'')])
                             10),
                     Print line]\<rparr>)"
    by simp
  with r show ?thesis by blast
qed




section \<open>Requests in the concrete environment\<close>

lemma loads_fanout: "demo_loads (plain_dumps fanout_payload) = Inr fanout_payload"
  by (simp add: payload_defs)

lemma int_str_201: "int_str 201 = ''201''"
  by (simp add: int_str_def nat_str.simps digit_char_def)

lemma int_str_202: "int_str 202 = ''202''"
  by (simp add: int_str_def nat_str.simps digit_char_def)

lemma registered_fields:
  "trace registered = []"
  "comfyui_url registered = ''http://localhost:8188''"
  "comfyui_distributed_url registered = ''http://localhost:8188/distributed''"
  "mesh_url registered = ''http://localhost:4000''"
  "mesh_key registered = ''openclaw-mesh-default-key''"
  "agent_name registered = ''ComfyUI-Mesh-Agent''"
  by (simp_all add: registered_def init_def COMFYUI_URL_def COMFYUI_DISTRIBUTED_URL_def
        MESH_API_URL_def MESH_API_KEY_def AGENT_NAME_def)

lemma cat_image_graph: "image_workflow cat_prompt (JObj []) = Inr cat_image_graph"
  by (simp add: cat_image_graph_def cat_prompt_def image_workflow_defaults)




lemma image_message:
  "py_get (message_from peer (plain_dumps image_payload)) ''content'' (JStr ''{}'')
     = Inr (JStr (plain_dumps image_payload))"
  "json_loads (demo_env h) (plain_dumps image_payload)
     = Inr (JObj [(''type'', JStr ''inference_request''),
                  (''request_type'', JStr ''image_generation''),
                  (''prompt'', JObj [(''positive'', JStr ''a cat'')])])"
  "py_get (message_from peer (plain_dumps image_payload)) ''sender'' JNull = Inr (JStr peer)"
  using loads_image by (simp_all add: message_from_def demo_env_def image_payload_def)

lemma fanout_message:
  "py_get (message_from peer (plain_dumps fanout_payload)) ''content'' (JStr ''{}'')
     = Inr (JStr (plain_dumps fanout_payload))"
  "json_loads (demo_env h) (plain_dumps fanout_payload)
     = Inr (JObj [(''type'', JStr ''inference_request''),
           (''request_type'', JStr ''distributed_inference''),
           (''prompt'', JObj [(''1'', JObj [(''class_type'', JStr ''SaveImage'')])]),
           (''options'', JObj [(''worker_ids'', JArr [JStr ''w1'', JStr ''w2''])])])"
  "py_get (message_from peer (plain_dumps fanout_payload)) ''sender'' JNull = Inr (JStr peer)"
  using loads_fanout by (simp_all add: message_from_def demo_env_def fanout_payload_def)

lemma audio_message:
  "py_get (message_from peer (plain_dumps audio_payload)) ''content'' (JStr ''{}'')
     = Inr (JStr (plain_dumps audio_payload))"
  "json_loads (demo_env h) (plain_dumps audio_payload)
     = Inr (JObj [(''type'', JStr ''inference_request''),
                  (''request_type'', JStr ''audio_generation'')])"
  "py_get (message_from peer (plain_dumps audio_payload)) ''sender'' JNull = Inr (JStr peer)"
  using loads_audio by (simp_all add: message_from_def demo_env_def audio_payload_def)

lemma kindless_message:
  "py_get (message_from peer (plain_dumps kindless_payload)) ''content'' (JStr ''{}'')
     = Inr (JStr (plain_dumps kindless_payload))"
  "json_loads (demo_env h) (plain_dumps kindless_payload)
     = Inr (JObj [(''type'', JStr ''inference_request'')])"
  "py_get (message_from peer (plain_dumps kindless_payload)) ''sender'' JNull = Inr (JStr peer)"
  using loads_kindless by (simp_all add: message_from_def demo_env_def kindless_payload_def)

text \<open>What the demo peers make of an image request, for a status of the backend.\<close>

lemma image_request_run:
  "process_inference_request (demo_env h) (message_from peer (plain_dumps image_payload))
     registered
   = (Some (fst (generate_image (demo_env h) cat_prompt (JObj [])
                   (registered\<lparr>trace :=
                      [Print (''Received image_generation request from '' @ peer)]\<rparr>))),
      snd (generate_image (demo_env h) cat_prompt (JObj [])
             (registered\<lparr>trace :=
                [Print (''Received image_generation request from '' @ peer)]\<rparr>)))"
proof -
  let ?c = "[(''type'', JStr ''inference_request''),
             (''request_type'', JStr ''image_generation''),
             (''prompt'', JObj [(''positive'', JStr ''a cat'')])]"
  let ?st1 = "registered\<lparr>trace :=
                [Print (''Received image_generation request from '' @ peer)]\<rparr>"
  have m: "map_of ?c ''type'' = Some (JStr ''inference_request'')"
    and k: "py_get (JObj ?c) ''request_type'' JNull = Inr (JStr ''image_generation'')"
    and p: "py_get (JObj ?c) ''prompt'' JNull = Inr cat_prompt"
    and o: "py_get (JObj ?c) ''options'' (JObj []) = Inr (JObj [])"
    by (simp_all add: cat_prompt_def)
  have s: "?st1 = registered\<lparr>trace := trace registered @
             [Print (''Received '' @ py_str (demo_env h) (JStr ''image_generation'')
                       @ '' request from '' @ py_str (demo_env h) (JStr peer))]\<rparr>"
    by (simp add: registered_fields)
  show ?thesis
    using request_routed [OF image_message(1) image_message(2) m k p o image_message(3) s]
    by simp
qed

lemma fanout_request_run:
  "process_inference_request (demo_env h) (message_from peer (plain_dumps fanout_payload))
     registered
   = (Some (fst (queue_distributed_workflow (demo_env h)
                   (JObj [(''1'', JObj [(''class_type'', JStr ''SaveImage'')])])
                   (JObj [(''worker_ids'', JArr [JStr ''w1'', JStr ''w2''])])
                   (registered\<lparr>trace :=
                      [Print (''Received distributed_inference request from '' @ peer)]\<rparr>))),
      snd (queue_distributed_workflow (demo_env h)
             (JObj [(''1'', JObj [(''class_type'', JStr ''SaveImage'')])])
             (JObj [(''worker_ids'', JArr [JStr ''w1'', JStr ''w2''])])
             (registered\<lparr>trace :=
                [Print (''Received distributed_inference request from '' @ peer)]\<rparr>)))"
proof -
  let ?c = "[(''type'', JStr ''inference_request''),
           (''request_type'', JStr ''distributed_inference''),
           (''prompt'', JObj [(''1'', JObj [(''class_type'', JStr ''SaveImage'')])]),
           (''options'', JObj [(''worker_ids'', JArr [JStr ''w1'', JStr ''w2''])])]"
  let ?st1 = "registered\<lparr>trace :=
                [Print (''Received distributed_inference request from '' @ peer)]\<rparr>"
  have m: "map_of ?c ''type'' = Some (JStr ''inference_request'')"
    and k: "py_get (JObj ?c) ''request_type'' JNull = Inr (JStr ''distributed_inference'')"
    and p: "py_get (JObj ?c) ''prompt'' JNull
              = Inr (JObj [(''1'', JObj [(''class_type'', JStr ''SaveImage'')])])"
    and o: "py_get (JObj ?c) ''options'' (JObj [])
              = Inr (JObj [(''worker_ids'', JArr [JStr ''w1'', JStr ''w2''])])"
    by simp_all
  have s: "?st1 = registered\<lparr>trace := trace registered @
             [Print (''Received '' @ py_str (demo_env h) (JStr ''distributed_inference'')
                       @ '' request from '' @ py_str (demo_env h) (JStr peer))]\<rparr>"
    by (simp add: registered_fields)
  show ?thesis
    using request_routed [OF fanout_message(1) fanout_message(2) m k p o fanout_message(3) s]
    by simp
qed

lemma audio_request_run:
  "process_inference_request (demo_env h) (message_from peer (plain_dumps audio_payload))
     registered
   = (Some (JObj [(''error'', JStr ''Unknown request type: audio_generation'')]),
      registered\<lparr>trace := [Print (''Received audio_generation request from '' @ peer)]\<rparr>)"
proof -
  let ?c = "[(''type'', JStr ''inference_request''),
             (''request_type'', JStr ''audio_generation'')]"
  let ?st1 = "registered\<lparr>trace :=
                [Print (''Received audio_generation request from '' @ peer)]\<rparr>"
  have m: "map_of ?c ''type'' = Some (JStr ''inference_request'')"
    and k: "py_get (JObj ?c) ''request_type'' JNull = Inr (JStr ''audio_generation'')"
    and p: "py_get (JObj ?c) ''prompt'' JNull = Inr JNull"
    and o: "py_get (JObj ?c) ''options'' (JObj []) = Inr (JObj [])"
    by simp_all
  have s: "?st1 = registered\<lparr>trace := trace registered @
             [Print (''Received '' @ py_str (demo_env h) (JStr ''audio_generation'')
                       @ '' request from '' @ py_str (demo_env h) (JStr peer))]\<rparr>"
    by (simp add: registered_fields)
  show ?thesis
    using request_routed [OF audio_message(1) audio_message(2) m k p o audio_message(3) s]
    by simp
qed

section \<open>Runs that the specification does not describe\<close>


text \<open>
  A request of kind \<^verbatim>\<open>audio_generation\<close>: the result is
  \<^verbatim>\<open>{error: Unknown request type: audio_generation}\<close>, with no key \<^verbatim>\<open>status\<close>; its status
  is not \<^verbatim>\<open>error\<close>.
\<close>

theorem unknown_kind_result_has_no_status:
  "process_inference_request (demo_env (demo_http 200 (JArr [])))
     (message_from ''peer-1'' (plain_dumps audio_payload)) registered
     = (Some (JObj [(''error'', JStr ''Unknown request type: audio_generation'')]),
        registered\<lparr>trace := [Print ''Received audio_generation request from peer-1'']\<rparr>)
   \<and> field (JObj [(''error'', JStr ''Unknown request type: audio_generation'')]) ''status''
       \<noteq> Some (JStr ''error'')"
  using audio_request_run [of "demo_http 200 (JArr [])" "''peer-1''"] by simp


text \<open>
  A backend that replies 202 (Accepted), with a job handle in the body, to the submission of
  an image request without options: the result is \<^verbatim>\<open>{error: ComfyUI error: 202}\<close>, not
  a queued job.
\<close>

theorem accepted_image_reply_is_an_error:
  "http (demo_env (demo_http 202 (JArr [])))
     [Print ''Received image_generation request from peer-1'']
     (Post ''http://localhost:8188/api/prompt'' []
        (JObj [(''prompt'', cat_image_graph), (''client_id'', JStr ''mesh-agent'')]) 10)
     = Response 202 (Inr (JObj [(''prompt_id'', JStr ''job-1'')]))
   \<and> process_inference_request (demo_env (demo_http 202 (JArr [])))
       (message_from ''peer-1'' (plain_dumps image_payload)) registered
     = (Some (JObj [(''error'', JStr ''ComfyUI error: 202'')]),
        registered\<lparr>trace :=
          [Print ''Received image_generation request from peer-1'',
           Call (Post ''http://localhost:8188/api/prompt'' []
                   (JObj [(''prompt'', cat_image_graph), (''client_id'', JStr ''mesh-agent'')])
                   10)]\<rparr>)"
proof -
  let ?E = "demo_env (demo_http 202 (JArr []))"
  let ?st1 = "registered\<lparr>trace :=
                [Print ''Received image_generation request from peer-1'']\<rparr>"
  let ?c = "Post (comfyui_url ?st1 @ ''/api/prompt'') []
              (JObj [(''prompt'', cat_image_graph), (''client_id'', JStr ''mesh-agent'')]) 10"
  have h: "http ?E (trace ?st1) ?c = Response 202 (Inr (JObj [(''prompt_id'', JStr ''job-1'')]))"
    by (simp add: demo_env_def demo_http_def registered_fields)
  have f: "fst (generate_image ?E cat_prompt (JObj []) ?st1)
             = JObj [(''error'', JStr ''ComfyUI error: 202'')]"
    using generate_image_rejected [OF cat_image_graph refl h] by (simp add: int_str_202)
  have s: "snd (generate_image ?E cat_prompt (JObj []) ?st1)
             = ?st1\<lparr>trace := trace ?st1 @ [Call ?c]\<rparr>"
    by (rule generate_image_posts [OF cat_image_graph refl])
  show ?thesis
    using h by (simp add: image_request_run f s registered_fields)
qed

text \<open>
  A distributed endpoint that replies 201 (Created), with a job handle and a worker count in
  the body: the result is \<^verbatim>\<open>{error: Distributed API error: 201}\<close>.
\<close>

theorem created_distributed_reply_is_an_error:
  "http (demo_env (demo_http 201 (JArr [])))
     [Print ''Received distributed_inference request from peer-1'']
     (Post ''http://localhost:8188/distributed/queue'' []
        (JObj [(''prompt'', JObj [(''1'', JObj [(''class_type'', JStr ''SaveImage'')])]),
               (''client_id'', JStr ''mesh-distributed''),
               (''delegate_master'', JBool False),
               (''enabled_worker_ids'', JArr [JStr ''w1'', JStr ''w2''])]) 10)
     = Response 201 (Inr (JObj [(''prompt_id'', JStr ''job-2''), (''worker_count'', JInt 2)]))
   \<and> process_inference_request (demo_env (demo_http 201 (JArr [])))
       (message_from ''peer-1'' (plain_dumps fanout_payload)) registered
     = (Some (JObj [(''error'', JStr ''Distributed API error: 201'')]),
        registered\<lparr>trace :=
          [Print ''Received distributed_inference request from peer-1'',
           Call (Post ''http://localhost:8188/distributed/queue'' []
                   (JObj [(''prompt'', JObj [(''1'', JObj [(''class_type'', JStr ''SaveImage'')])]),
                          (''client_id'', JStr ''mesh-distributed''),
                          (''delegate_master'', JBool False),
                          (''enabled_worker_ids'', JArr [JStr ''w1'', JStr ''w2''])]) 10)]\<rparr>)"
proof -
  let ?E = "demo_env (demo_http 201 (JArr []))"
  let ?w = "JObj [(''1'', JObj [(''class_type'', JStr ''SaveImage'')])]"
  let ?o = "JObj [(''worker_ids'', JArr [JStr ''w1'', JStr ''w2''])]"
  let ?y = "JObj [(''prompt'', ?w), (''client_id'', JStr ''mesh-distributed''),
                  (''delegate_master'', JBool False),
                  (''enabled_worker_ids'', JArr [JStr ''w1'', JStr ''w2''])]"
  let ?st1 = "registered\<lparr>trace :=
                [Print ''Received distributed_inference request from peer-1'']\<rparr>"
  let ?c = "Post (comfyui_distributed_url ?st1 @ ''/queue'') [] ?y 10"
  have y: "distributed_payload ?w ?o = Inr ?y"
    by (simp add: distributed_payload_def bind_exn_def)
  have h: "http ?E (trace ?st1) ?c
             = Response 201 (Inr (JObj [(''prompt_id'', JStr ''job-2''), (''worker_count'', JInt 2)]))"
    by (simp add: demo_env_def demo_http_def registered_fields)
  have f: "fst (queue_distributed_workflow ?E ?w ?o ?st1)
             = JObj [(''error'', JStr ''Distributed API error: 201'')]"
    using queue_distributed_rejected [OF y refl h] by (simp add: int_str_201)
  have s: "snd (queue_distributed_workflow ?E ?w ?o ?st1)
             = ?st1\<lparr>trace := trace ?st1 @ [Call ?c]\<rparr>"
    by (rule queue_distributed_posts [OF y refl])
  show ?thesis
    using h by (simp add: fanout_request_run f s registered_fields)
qed

section \<open>Runs of the submissions\<close>

lemma cat_image_graph_explicit:
  "cat_image_graph =
     JObj
       [(''3'', JObj [(''class_type'', JStr ''CLIPTextEncode''),
                      (''inputs'', JObj
                         [(''text'', JStr ''a cat''),
                          (''clip'', JArr [JStr ''4'', JInt 0])])]),
        (''4'', JObj [(''class_type'', JStr ''CLIPTextEncode''),
                      (''inputs'', JObj
                         [(''text'', JStr ''bad quality''),
                          (''clip'', JArr [JStr ''4'', JInt 0])])]),
        (''5'', JObj [(''class_type'', JStr ''KSampler''),
                      (''inputs'', JObj
                         [(''seed'', JInt 42), (''steps'', JInt 20), (''cfg'', JInt 8),
                          (''sampler_name'', JStr ''euler''), (''scheduler'', JStr ''normal''),
                          (''model'', JArr [JStr ''6'', JInt 0]),
                          (''positive'', JArr [JStr ''3'', JInt 0]),
                          (''negative'', JArr [JStr ''4'', JInt 0]),
                          (''latent_image'', JArr [JStr ''7'', JInt 0])])]),
        (''6'', JObj [(''class_type'', JStr ''CheckpointLoaderSimple''),
                      (''inputs'', JObj [(''ckpt_name'', JStr ''sd_xl_base_1.0.safetensors'')])]),
        (''7'', JObj [(''class_type'', JStr ''EmptyLatentImage''),
                      (''inputs'', JObj
                         [(''width'', JInt 1024), (''height'', JInt 1024),
                          (''batch_size'', JInt 1)])]),
        (''8'', JObj [(''class_type'', JStr ''VAEDecode''),
                      (''inputs'', JObj
                         [(''samples'', JArr [JStr ''5'', JInt 0]),
                          (''vae'', JArr [JStr ''6'', JInt 0])])]),
        (''9'', JObj [(''class_type'', JStr ''SaveImage''),
                      (''inputs'', JObj
                         [(''images'', JArr [JStr ''8'', JInt 0]),
                          (''filename_prefix'', JStr ''mesh_generated'')])])]"
  by (simp add: cat_image_graph_def cat_prompt_def image_workflow_defaults)

text \<open>
  An image request for \<^verbatim>\<open>a cat\<close> without options, once with a backend that replies 200
  and the handle \<^verbatim>\<open>job-1\<close>, once with a backend that replies 500.
\<close>

theorem image_request_defaults_witness:
  "py_get (message_from ''peer-1'' (plain_dumps image_payload)) ''content'' (JStr ''{}'')
     = Inr (JStr (plain_dumps image_payload))
   \<and> json_loads (demo_env (demo_http 200 (JArr []))) (plain_dumps image_payload)
     = Inr (JObj [(''type'', JStr ''inference_request''),
                  (''request_type'', JStr ''image_generation''),
                  (''prompt'', JObj [(''positive'', JStr ''a cat'')])])
   \<and> py_get (JObj [(''type'', JStr ''inference_request''),
                   (''request_type'', JStr ''image_generation''),
                   (''prompt'', JObj [(''positive'', JStr ''a cat'')])]) ''options'' (JObj [])
     = Inr (JObj [])
   \<and> py_get (message_from ''peer-1'' (plain_dumps image_payload)) ''sender'' JNull
     = Inr (JStr ''peer-1'')
   \<and> input_of cat_image_graph ''5'' ''seed'' = Some (JInt 42)
   \<and> input_of cat_image_graph ''7'' ''width'' = Some (JInt 1024)
   \<and> http (demo_env (demo_http 200 (JArr [])))
        [Print ''Received image_generation request from peer-1'']
        (Post ''http://localhost:8188/api/prompt'' []
           (JObj [(''prompt'', cat_image_graph), (''client_id'', JStr ''mesh-agent'')]) 10)
     = Response 200 (Inr (JObj [(''prompt_id'', JStr ''job-1'')]))
   \<and> process_inference_request (demo_env (demo_http 200 (JArr [])))
        (message_from ''peer-1'' (plain_dumps image_payload)) registered
     = (Some (JObj [(''status'', JStr ''queued''), (''prompt_id'', JStr ''job-1'')]),
        registered\<lparr>trace :=
          [Print ''Received image_generation request from peer-1'',
           Call (Post ''http://localhost:8188/api/prompt'' []
                   (JObj [(''prompt'', cat_image_graph), (''client_id'', JStr ''mesh-agent'')])
                   10)]\<rparr>)
   \<and> http (demo_env (demo_http 500 (JArr [])))
        [Print ''Received image_generation request from peer-1'']
        (Post ''http://localhost:8188/api/prompt'' []
           (JObj [(''prompt'', cat_image_graph), (''client_id'', JStr ''mesh-agent'')]) 10)
     = Response 500 (Inr (JObj [(''prompt_id'', JStr ''job-1'')]))
   \<and> (500::int) \<noteq> 200
   \<and> fst (process_inference_request (demo_env (demo_http 500 (JArr [])))
             (message_from ''peer-1'' (plain_dumps image_payload)) registered)
     = Some (JObj [(''error'', JStr ''ComfyUI error: 500'')])"
proof -
  let ?msg = "message_from ''peer-1'' (plain_dumps image_payload)"
  let ?c = "[(''type'', JStr ''inference_request''),
             (''request_type'', JStr ''image_generation''),
             (''prompt'', JObj [(''positive'', JStr ''a cat'')])]"
  let ?ps = "[(''positive'', JStr ''a cat'')]"
  let ?received = "Print ''Received image_generation request from peer-1''"
  let ?sub = "Post ''http://localhost:8188/api/prompt'' []
                (JObj [(''prompt'', cat_image_graph), (''client_id'', JStr ''mesh-agent'')]) 10"
  let ?E = "\<lambda>code. demo_env (demo_http code (JArr []))"
  have a3: "map_of ?c ''type'' = Some (JStr ''inference_request'')"
    and a4: "map_of ?c ''request_type'' = Some (JStr ''image_generation'')"
    and a5: "map_of ?c ''prompt'' = Some (JObj ?ps)"
    and a6: "py_get (JObj ?c) ''options'' (JObj []) = Inr (JObj [])"
    by simp_all
  have a8: "\<And>h. ?received = Print (''Received image_generation request from ''
                            @ py_str (demo_env h) (JStr ''peer-1''))"
    by simp
  have a9: "?sub = Post (comfyui_url registered @ ''/api/prompt'') []
               (JObj [(''prompt'', JObj
                  [(''3'', JObj [(''class_type'', JStr ''CLIPTextEncode''),
                      (''inputs'', JObj
                         [(''text'', case map_of ?ps ''positive'' of
                                       None \<Rightarrow> JStr [] | Some v \<Rightarrow> v),
                          (''clip'', JArr [JStr ''4'', JInt 0])])]),
                   (''4'', JObj [(''class_type'', JStr ''CLIPTextEncode''),
                      (''inputs'', JObj
                         [(''text'', case map_of ?ps ''negative'' of
                                       None \<Rightarrow> JStr ''bad quality'' | Some v \<Rightarrow> v),
                          (''clip'', JArr [JStr ''4'', JInt 0])])]),
                   (''5'', JObj [(''class_type'', JStr ''KSampler''),
                      (''inputs'', JObj
                         [(''seed'', JInt 42), (''steps'', JInt 20), (''cfg'', JInt 8),
                          (''sampler_name'', JStr ''euler''), (''scheduler'', JStr ''normal''),
                          (''model'', JArr [JStr ''6'', JInt 0]),
                          (''positive'', JArr [JStr ''3'', JInt 0]),
                          (''negative'', JArr [JStr ''4'', JInt 0]),
                          (''latent_image'', JArr [JStr ''7'', JInt 0])])]),
                   (''6'', JObj [(''class_type'', JStr ''CheckpointLoaderSimple''),
                      (''inputs'', JObj [(''ckpt_name'', JStr ''sd_xl_base_1.0.safetensors'')])]),
                   (''7'', JObj [(''class_type'', JStr ''EmptyLatentImage''),
                      (''inputs'', JObj
                         [(''width'', JInt 1024), (''height'', JInt 1024),
                          (''batch_size'', JInt 1)])]),
                   (''8'', JObj [(''class_type'', JStr ''VAEDecode''),
                      (''inputs'', JObj
                         [(''samples'', JArr [JStr ''5'', JInt 0]),
                          (''vae'', JArr [JStr ''6'', JInt 0])])]),
                   (''9'', JObj [(''class_type'', JStr ''SaveImage''),
                      (''inputs'', JObj
                         [(''images'', JArr [JStr ''8'', JInt 0]),
                          (''filename_prefix'', JStr ''mesh_generated'')])])]),
                 (''client_id'', JStr ''mesh-agent'')]) 10"
    by (simp add: cat_image_graph_explicit registered_fields)
  have h200: "http (?E 200) (trace registered @ [?received]) ?sub
                = Response 200 (Inr (JObj [(''prompt_id'', JStr ''job-1'')]))"
    and h500: "http (?E 500) (trace registered @ [?received]) ?sub
                = Response 500 (Inr (JObj [(''prompt_id'', JStr ''job-1'')]))"
    by (simp_all add: demo_env_def demo_http_def registered_fields)
  have n: "(500::int) \<noteq> 200" by simp
  from image_request_defaults
         [OF image_message(1) image_message(2) [of "demo_http 200 (JArr [])"] a3 a4 a5 a6
             image_message(3) a8 [of "demo_http 200 (JArr [])"] a9,
          where body = "[(''prompt_id'', JStr ''job-1'')]"] h200
  have r200: "process_inference_request (?E 200) ?msg registered
     = (Some (JObj [(''status'', JStr ''queued''), (''prompt_id'', JStr ''job-1'')]),
        registered\<lparr>trace := [?received, Call ?sub]\<rparr>)"
    by (simp add: prod_eq_iff registered_fields)
  from image_request_defaults
         [OF image_message(1) image_message(2) [of "demo_http 500 (JArr [])"] a3 a4 a5 a6
             image_message(3) a8 [of "demo_http 500 (JArr [])"] a9,
          where code = 500] h500 n
  have r500: "fst (process_inference_request (?E 500) ?msg registered)
     = Some (JObj [(''error'', JStr ''ComfyUI error: 500'')])"
    by (simp add: int_str_500)
  have i: "input_of cat_image_graph ''5'' ''seed'' = Some (JInt 42)"
    "input_of cat_image_graph ''7'' ''width'' = Some (JInt 1024)"
    by (simp_all add: cat_image_graph_explicit input_of_def)
  from image_message(1) image_message(2) a6 image_message(3) i h200 r200 h500 n r500
  show ?thesis by (simp add: registered_fields)
qed

text \<open>
  A distributed request with the worker ids \<^verbatim>\<open>w1\<close> and \<^verbatim>\<open>w2\<close>, once with an endpoint that
  replies 200, once with one that replies 500.
\<close>

theorem distributed_request_submitted_witness:
  "py_get (message_from ''peer-1'' (plain_dumps fanout_payload)) ''content'' (JStr ''{}'')
     = Inr (JStr (plain_dumps fanout_payload))
   \<and> json_loads (demo_env (demo_http 200 (JArr []))) (plain_dumps fanout_payload)
     = Inr (JObj [(''type'', JStr ''inference_request''),
           (''request_type'', JStr ''distributed_inference''),
           (''prompt'', JObj [(''1'', JObj [(''class_type'', JStr ''SaveImage'')])]),
           (''options'', JObj [(''worker_ids'', JArr [JStr ''w1'', JStr ''w2''])])])
   \<and> py_get (message_from ''peer-1'' (plain_dumps fanout_payload)) ''sender'' JNull
     = Inr (JStr ''peer-1'')
   \<and> http (demo_env (demo_http 200 (JArr [])))
        [Print ''Received distributed_inference request from peer-1'']
        (Post ''http://localhost:8188/distributed/queue'' []
           (JObj [(''prompt'', JObj [(''1'', JObj [(''class_type'', JStr ''SaveImage'')])]),
                  (''client_id'', JStr ''mesh-distributed''),
                  (''delegate_master'', JBool False),
                  (''enabled_worker_ids'', JArr [JStr ''w1'', JStr ''w2''])]) 10)
     = Response 200 (Inr (JObj [(''prompt_id'', JStr ''job-2''), (''worker_count'', JInt 2)]))
   \<and> process_inference_request (demo_env (demo_http 200 (JArr [])))
        (message_from ''peer-1'' (plain_dumps fanout_payload)) registered
     = (Some (JObj [(''status'', JStr ''distributed_queued''), (''prompt_id'', JStr ''job-2''),
                    (''worker_count'', JInt 2)]),
        registered\<lparr>trace :=
          [Print ''Received distributed_inference request from peer-1'',
           Call (Post ''http://localhost:8188/distributed/queue'' []
                   (JObj [(''prompt'', JObj [(''1'', JObj [(''class_type'', JStr ''SaveImage'')])]),
                          (''client_id'', JStr ''mesh-distributed''),
                          (''delegate_master'', JBool False),
                          (''enabled_worker_ids'', JArr [JStr ''w1'', JStr ''w2''])]) 10)]\<rparr>)
   \<and> http (demo_env (demo_http 500 (JArr [])))
        [Print ''Received distributed_inference request from peer-1'']
        (Post ''http://localhost:8188/distributed/queue'' []
           (JObj [(''prompt'', JObj [(''1'', JObj [(''class_type'', JStr ''SaveImage'')])]),
                  (''client_id'', JStr ''mesh-distributed''),
                  (''delegate_master'', JBool False),
                  (''enabled_worker_ids'', JArr [JStr ''w1'', JStr ''w2''])]) 10)
     = Response 500 (Inr (JObj [(''prompt_id'', JStr ''job-2''), (''worker_count'', JInt 2)]))
   \<and> (500::int) \<noteq> 200
   \<and> fst (process_inference_request (demo_env (demo_http 500 (JArr [])))
             (message_from ''peer-1'' (plain_dumps fanout_payload)) registered)
     = Some (JObj [(''error'', JStr ''Distributed API error: 500'')])"
proof -
  let ?msg = "message_from ''peer-1'' (plain_dumps fanout_payload)"
  let ?w = "JObj [(''1'', JObj [(''class_type'', JStr ''SaveImage'')])]"
  let ?os = "[(''worker_ids'', JArr [JStr ''w1'', JStr ''w2''])]"
  let ?c = "[(''type'', JStr ''inference_request''),
           (''request_type'', JStr ''distributed_inference''),
           (''prompt'', ?w), (''options'', JObj ?os)]"
  let ?received = "Print ''Received distributed_inference request from peer-1''"
  let ?sub = "Post ''http://localhost:8188/distributed/queue'' []
           (JObj [(''prompt'', ?w), (''client_id'', JStr ''mesh-distributed''),
                  (''delegate_master'', JBool False),
                  (''enabled_worker_ids'', JArr [JStr ''w1'', JStr ''w2''])]) 10"
  let ?body = "[(''prompt_id'', JStr ''job-2''), (''worker_count'', JInt 2)]"
  let ?E = "\<lambda>code. demo_env (demo_http code (JArr []))"
  have a3: "map_of ?c ''type'' = Some (JStr ''inference_request'')"
    and a4: "map_of ?c ''request_type'' = Some (JStr ''distributed_inference'')"
    and a5: "py_get (JObj ?c) ''prompt'' JNull = Inr ?w"
    and a6: "py_get (JObj ?c) ''options'' (JObj []) = Inr (JObj ?os)"
    by simp_all
  have a8: "\<And>h. ?received = Print (''Received distributed_inference request from ''
                            @ py_str (demo_env h) (JStr ''peer-1''))"
    by simp
  have a9: "?sub = Post (comfyui_distributed_url registered @ ''/queue'') []
               (JObj [(''prompt'', ?w), (''client_id'', JStr ''mesh-distributed''),
                      (''delegate_master'', case map_of ?os ''delegate_master'' of
                                              None \<Rightarrow> JBool False | Some v \<Rightarrow> v),
                      (''enabled_worker_ids'', case map_of ?os ''worker_ids'' of
                                                 None \<Rightarrow> JArr [] | Some v \<Rightarrow> v)]) 10"
    by (simp add: registered_fields)
  have h200: "http (?E 200) (trace registered @ [?received]) ?sub = Response 200 (Inr (JObj ?body))"
    and h500: "http (?E 500) (trace registered @ [?received]) ?sub = Response 500 (Inr (JObj ?body))"
    by (simp_all add: demo_env_def demo_http_def registered_fields)
  have n: "(500::int) \<noteq> 200" by simp
  from distributed_request_submitted
         [OF fanout_message(1) fanout_message(2) [of "demo_http 200 (JArr [])"] a3 a4 a5 a6
             fanout_message(3) a8 [of "demo_http 200 (JArr [])"] a9,
          where body = ?body] h200
  have r200: "process_inference_request (?E 200) ?msg registered
     = (Some (JObj [(''status'', JStr ''distributed_queued''), (''prompt_id'', JStr ''job-2''),
                    (''worker_count'', JInt 2)]),
        registered\<lparr>trace := [?received, Call ?sub]\<rparr>)"
    by (simp add: prod_eq_iff registered_fields)
  from distributed_request_submitted
         [OF fanout_message(1) fanout_message(2) [of "demo_http 500 (JArr [])"] a3 a4 a5 a6
             fanout_message(3) a8 [of "demo_http 500 (JArr [])"] a9,
          where code = 500] h500 n
  have r500: "fst (process_inference_request (?E 500) ?msg registered)
     = Some (JObj [(''error'', JStr ''Distributed API error: 500'')])"
    by (simp add: int_str_500)
  from fanout_message(1) fanout_message(2) fanout_message(3) h200 r200 h500 n r500
  show ?thesis by (simp add: registered_fields)
qed


lemma snd_dispatch_nil: "snd (dispatch_messages E [] st) = st"
  by simp

text \<open>
  A request of kind \<^verbatim>\<open>audio_generation\<close> and a request without kind, from \<^verbatim>\<open>peer-1\<close>: the
  only call of the step is the post of the error result to \<^verbatim>\<open>peer-1\<close>.
\<close>

theorem unknown_kind_error_response_witness:
  "py_get (message_from ''peer-1'' (plain_dumps audio_payload)) ''content'' (JStr ''{}'')
     = Inr (JStr (plain_dumps audio_payload))
   \<and> json_loads (demo_env (demo_http 200 (JArr []))) (plain_dumps audio_payload)
     = Inr (JObj [(''type'', JStr ''inference_request''),
                  (''request_type'', JStr ''audio_generation'')])
   \<and> py_get (JObj [(''type'', JStr ''inference_request''),
                   (''request_type'', JStr ''audio_generation'')]) ''request_type'' JNull
     = Inr (JStr ''audio_generation'')
   \<and> JStr ''audio_generation'' \<notin> {JStr ''image_generation'', JStr ''video_generation'',
                                     JStr ''distributed_inference''}
   \<and> py_get (message_from ''peer-1'' (plain_dumps audio_payload)) ''sender'' JNull
     = Inr (JStr ''peer-1'')
   \<and> process_inference_request (demo_env (demo_http 200 (JArr [])))
        (message_from ''peer-1'' (plain_dumps audio_payload)) registered
     = (Some (JObj [(''error'', JStr ''Unknown request type: audio_generation'')]),
        registered\<lparr>trace := [Print ''Received audio_generation request from peer-1'']\<rparr>)
   \<and> calls_of (trace (snd (dispatch_messages (demo_env (demo_http 200 (JArr [])))
                               [message_from ''peer-1'' (plain_dumps audio_payload)] registered)))
     = [Post ''http://localhost:4000/api/messages/send''
          [(''X-API-Key'', ''openclaw-mesh-default-key''),
           (''Content-Type'', ''application/json'')]
          (JObj [(''content'', JStr (plain_dumps (JObj
                    [(''type'', JStr ''inference_response''),
                     (''original_request'', JObj [(''type'', JStr ''inference_request''),
                                                  (''request_type'', JStr ''audio_generation'')]),
                     (''response'',
                      JObj [(''error'', JStr ''Unknown request type: audio_generation'')])]))),
                 (''sender'', JStr ''ComfyUI-Mesh-Agent''),
                 (''recipient'', JStr ''peer-1''),
                 (''priority'', JStr ''normal'')])
          10]
   \<and> json_loads (demo_env (demo_http 200 (JArr []))) (plain_dumps kindless_payload)
     = Inr (JObj [(''type'', JStr ''inference_request'')])
   \<and> py_get (JObj [(''type'', JStr ''inference_request'')]) ''request_type'' JNull = Inr JNull
   \<and> JNull \<notin> {JStr ''image_generation'', JStr ''video_generation'',
                  JStr ''distributed_inference''}
   \<and> process_inference_request (demo_env (demo_http 200 (JArr [])))
        (message_from ''peer-2'' (plain_dumps kindless_payload)) registered
     = (Some (JObj [(''error'', JStr ''Unknown request type: None'')]),
        registered\<lparr>trace := [Print ''Received None request from peer-2'']\<rparr>)"
proof -
  let ?h = "demo_http 200 (JArr [])"
  let ?E = "demo_env ?h"
  let ?c = "[(''type'', JStr ''inference_request''), (''request_type'', JStr ''audio_generation'')]"
  let ?m = "message_from ''peer-1'' (plain_dumps audio_payload)"
  let ?k = "[(''type'', JStr ''inference_request'')]"
  let ?n = "message_from ''peer-2'' (plain_dumps kindless_payload)"
  let ?kinds = "{JStr ''image_generation'', JStr ''video_generation'',
                 JStr ''distributed_inference''}"
  let ?ra = "Print ''Received audio_generation request from peer-1''"
  let ?aa = "JObj [(''error'', JStr ''Unknown request type: audio_generation'')]"
  let ?rk = "Print ''Received None request from peer-2''"
  let ?ak = "JObj [(''error'', JStr ''Unknown request type: None'')]"
  have a3: "map_of ?c ''type'' = Some (JStr ''inference_request'')" by simp
  have a4: "py_get (JObj ?c) ''request_type'' JNull = Inr (JStr ''audio_generation'')" by simp
  have a5: "JStr ''audio_generation'' \<notin> ?kinds" by simp
  have a7: "?ra = Print (''Received '' @ py_str ?E (JStr ''audio_generation'')
                           @ '' request from '' @ py_str ?E (JStr ''peer-1''))" by simp
  have a8: "?aa = JObj [(''error'', JStr (''Unknown request type: ''
                                           @ py_str ?E (JStr ''audio_generation'')))]" by simp
  note A = unknown_kind_error_response
             [OF audio_message(1) audio_message(2) [of ?h] a3 a4 a5 audio_message(3) a7 a8,
              where st = registered and msgs = "[]"]
  from A have pa: "process_inference_request ?E ?m registered
                     = (Some ?aa, registered\<lparr>trace := [?ra]\<rparr>)"
    by (simp add: registered_fields)
  from A obtain line where
    "dispatch_messages ?E [?m] registered =
       dispatch_messages ?E []
         (registered\<lparr>trace := trace registered @
            [?ra,
             Call (Post (mesh_url registered @ ''/api/messages/send'')
                     [(''X-API-Key'', mesh_key registered),
                      (''Content-Type'', ''application/json'')]
                     (JObj [(''content'', JStr (json_dumps ?E (JObj
                               [(''type'', JStr ''inference_response''),
                                (''original_request'', JObj ?c),
                                (''response'', ?aa)]))),
                            (''sender'', JStr (agent_name registered)),
                            (''recipient'', JStr ''peer-1''),
                            (''priority'', JStr ''normal'')])
                     10),
             Print line]\<rparr>)"
    by blast
  then have ca: "calls_of (trace (snd (dispatch_messages ?E [?m] registered)))
     = [Post ''http://localhost:4000/api/messages/send''
          [(''X-API-Key'', ''openclaw-mesh-default-key''),
           (''Content-Type'', ''application/json'')]
          (JObj [(''content'', JStr (plain_dumps (JObj
                    [(''type'', JStr ''inference_response''),
                     (''original_request'', JObj ?c),
                     (''response'', ?aa)]))),
                 (''sender'', JStr ''ComfyUI-Mesh-Agent''),
                 (''recipient'', JStr ''peer-1''),
                 (''priority'', JStr ''normal'')])
          10]"
    by (simp only: snd_dispatch_nil)
       (simp add: registered_fields demo_env_def)
  have b3: "map_of ?k ''type'' = Some (JStr ''inference_request'')" by simp
  have b4: "py_get (JObj ?k) ''request_type'' JNull = Inr JNull" by simp
  have b5: "JNull \<notin> ?kinds" by simp
  have b7: "?rk = Print (''Received '' @ py_str ?E JNull
                           @ '' request from '' @ py_str ?E (JStr ''peer-2''))" by simp
  have b8: "?ak = JObj [(''error'', JStr (''Unknown request type: '' @ py_str ?E JNull))]"
    by simp
  from unknown_kind_error_response
         [OF kindless_message(1) kindless_message(2) [of ?h] b3 b4 b5 kindless_message(3) b7 b8,
          where st = registered and msgs = "[]"]
  have pk: "process_inference_request ?E ?n registered
              = (Some ?ak, registered\<lparr>trace := [?rk]\<rparr>)"
    by (simp add: registered_fields)
  from audio_message(1) audio_message(2) [of ?h] a4 a5 audio_message(3) pa ca
       kindless_message(2) [of ?h] b4 b5 pk
  show ?thesis by blast
qed


end
